theory Spec2Isabelle
  imports Main "HOL-Library.Word"
begin

section \<open>Python values\<close>

text \<open>
  A Python \<open>str\<close> is a sequence of Unicode code points and \<open>len\<close> counts code points,
  so a string is a list of code points. The bridge's own literals are ASCII, except for
  the dash U+2014 of the truncation marker.
\<close>

type_synonym ustring = "nat list"

definition ascii :: "string \<Rightarrow> ustring" where
  "ascii s = map of_char s"

text \<open>\<open>str(n)\<close> for a non-negative integer: its decimal digits.\<close>

function str_nat :: "nat \<Rightarrow> ustring" where
  "str_nat n = (if n < 10 then [48 + n] else str_nat (n div 10) @ [48 + n mod 10])"
  by pat_completeness auto
termination
  by (relation "measure id") auto

declare str_nat.simps [simp del]

text \<open>Reading a decimal numeral back, to state that \<open>str_nat\<close> writes the number.\<close>

definition read_nat :: "ustring \<Rightarrow> nat" where
  "read_nat ds = foldl (\<lambda>acc d. 10 * acc + (d - 48)) 0 ds"

text \<open>
  The characters \<open>str.strip()\<close> removes: those for which \<open>str.isspace\<close> holds.
\<close>

definition isspace :: "nat \<Rightarrow> bool" where
  "isspace c \<longleftrightarrow>
     (9 \<le> c \<and> c \<le> 13) \<or> (28 \<le> c \<and> c \<le> 32) \<or> c = 133 \<or> c = 160 \<or> c = 5760 \<or>
     (8192 \<le> c \<and> c \<le> 8202) \<or> c = 8232 \<or> c = 8233 \<or> c = 8239 \<or> c = 8287 \<or> c = 12288"

definition strip :: "ustring \<Rightarrow> ustring" where
  "strip s = rev (dropWhile isspace (rev (dropWhile isspace s)))"

text \<open>
  An exception, as far as the bridge looks at it: \<open>type(e).__name__\<close> and \<open>str(e)\<close>.
  The model covers the exceptions that \<open>except Exception\<close> catches.
\<close>

datatype exn = Exn (kind: ustring) (message: ustring)

text \<open>
  What \<open>json.loads\<close> returns. A float is its 64 bits; it is falsy when it is
  \<open>0.0\<close> or \<open>-0.0\<close>, that is when all bits but the sign are zero.
\<close>

datatype json =
    JNull
  | JBool bool
  | JInt int
  | JFloat "64 word"
  | JStr ustring
  | JArr "json list"
  | JObj "(ustring \<times> json) list"

fun truthy :: "json \<Rightarrow> bool" where
  "truthy JNull = False"
| "truthy (JBool b) = b"
| "truthy (JInt i) = (i \<noteq> 0)"
| "truthy (JFloat w) = (push_bit 1 w \<noteq> 0)"
| "truthy (JStr s) = (s \<noteq> [])"
| "truthy (JArr xs) = (xs \<noteq> [])"
| "truthy (JObj kvs) = (kvs \<noteq> [])"

fun type_name :: "json \<Rightarrow> string" where
  "type_name JNull = ''NoneType''"
| "type_name (JBool b) = ''bool''"
| "type_name (JInt i) = ''int''"
| "type_name (JFloat w) = ''float''"
| "type_name (JStr s) = ''str''"
| "type_name (JArr xs) = ''list''"
| "type_name (JObj kvs) = ''dict''"

text \<open>
  \<open>cmd.get(key, default)\<close>: a lookup on a dict, \<open>AttributeError\<close> on anything else
  that \<open>json.loads\<close> can return.
\<close>

definition dict_get :: "json \<Rightarrow> ustring \<Rightarrow> json \<Rightarrow> exn + json" where
  "dict_get cmd key dflt =
     (case cmd of
        JObj kvs \<Rightarrow> Inr (case map_of kvs key of Some v \<Rightarrow> v | None \<Rightarrow> dflt)
      | _ \<Rightarrow> Inl (Exn (ascii ''AttributeError'')
                 ([39] @ ascii (type_name cmd) @ [39] @ ascii '' object has no attribute 'get'' @ [39])))"

section \<open>The browser driver and the Python library\<close>

text \<open>
  Playwright and the library functions of Python are not part of the repository: they
  are parameters of the model. The browser, its context and its page are a state of
  type \<open>'s\<close>; every call may change it, and may raise.
\<close>

type_synonym ('a, 's) driver_op = "'s \<Rightarrow> (exn + 'a) \<times> 's"

record 's env =
  json_loads :: "ustring \<Rightarrow> exn + json"
  json_dumps :: "json \<Rightarrow> ustring"
  py_str :: "json \<Rightarrow> ustring"
  b64encode :: "8 word list \<Rightarrow> ustring"
  playwright_installed :: bool
  pw_start :: "(unit, 's) driver_op"
  chromium_launch :: "bool \<Rightarrow> (unit, 's) driver_op"
  new_context :: "int \<Rightarrow> int \<Rightarrow> ustring \<Rightarrow> (unit, 's) driver_op"
  new_page :: "(unit, 's) driver_op"
  set_default_timeout :: "int \<Rightarrow> (unit, 's) driver_op"
  set_default_navigation_timeout :: "int \<Rightarrow> (unit, 's) driver_op"
  page_goto :: "json \<Rightarrow> int \<Rightarrow> (unit, 's) driver_op"
  page_title :: "(ustring, 's) driver_op"
  page_url :: "(ustring, 's) driver_op"
  page_evaluate :: "(ustring, 's) driver_op"
  page_inner_text :: "ustring \<Rightarrow> (ustring, 's) driver_op"
  page_click :: "json \<Rightarrow> int \<Rightarrow> (unit, 's) driver_op"
  page_click_text :: "json \<Rightarrow> int \<Rightarrow> (unit, 's) driver_op"
  page_wait_for_load_state :: "int \<Rightarrow> (unit, 's) driver_op"
  page_fill :: "json \<Rightarrow> json \<Rightarrow> int \<Rightarrow> (unit, 's) driver_op"
  page_screenshot :: "(8 word list, 's) driver_op"
  context_close :: "(unit, 's) driver_op"
  browser_close :: "(unit, 's) driver_op"
  pw_stop :: "(unit, 's) driver_op"

text \<open>The calls made to the driver, in order, are recorded beside the browser state.\<close>

datatype call =
    PwStart | Launch bool | NewContext int int | NewPage
  | SetDefaultTimeout int | SetDefaultNavigationTimeout int
  | Goto json int | Title | Url | Evaluate | InnerText ustring
  | Click json int | ClickText json int | WaitForLoadState int
  | Fill json json int | Screenshot
  | ContextClose | BrowserClose | PwStop

record 's bridge =
  browser :: 's
  calls :: "call list"
  stdout :: "ustring list"

type_synonym ('a, 's) action = "'s bridge \<Rightarrow> (exn + 'a) \<times> 's bridge"

definition invoke :: "call \<Rightarrow> ('a, 's) driver_op \<Rightarrow> ('a, 's) action" where
  "invoke c f st =
     (case f (browser st) of (r, b) \<Rightarrow> (r, st\<lparr>browser := b, calls := calls st @ [c]\<rparr>))"

definition ret :: "'a \<Rightarrow> ('a, 's) action" where
  "ret x st = (Inr x, st)"

definition raise :: "exn \<Rightarrow> ('a, 's) action" where
  "raise ex st = (Inl ex, st)"

definition and_then :: "('a, 's) action \<Rightarrow> ('a \<Rightarrow> ('b, 's) action) \<Rightarrow> ('b, 's) action" where
  "and_then m k st = (case m st of (Inl ex, st') \<Rightarrow> (Inl ex, st') | (Inr x, st') \<Rightarrow> k x st')"

definition try_except :: "('a, 's) action \<Rightarrow> (exn \<Rightarrow> ('a, 's) action) \<Rightarrow> ('a, 's) action" where
  "try_except m h st = (case m st of (Inl ex, st') \<Rightarrow> h ex st' | (Inr x, st') \<Rightarrow> (Inr x, st'))"

definition lift :: "exn + 'a \<Rightarrow> ('a, 's) action" where
  "lift r st = (r, st)"

section \<open>The readable extractor\<close>

text \<open>The f-string appended on truncation; \<open>n\<close> is \<open>len(content)\<close> before the cut.\<close>

definition truncation_marker :: "nat \<Rightarrow> ustring" where
  "truncation_marker n =
     [10, 10] @ ascii ''[Truncated '' @ [8212] @ ascii '' '' @ str_nat n @ ascii '' total chars]''"

definition extract_readable :: "'s env \<Rightarrow> (ustring, 's) action" where
  "extract_readable e =
     try_except
       (and_then (invoke Evaluate (page_evaluate e)) (\<lambda>content.
          let max_chars = 50000 in
          if length content > max_chars
          then ret (take max_chars content @ truncation_marker (length content))
          else ret content))
       (\<lambda>_. try_except
          (and_then (invoke (InnerText (ascii ''body'')) (page_inner_text e (ascii ''body''))) (\<lambda>text.
             if length text > 50000
             then ret (take 50000 text @ truncation_marker (length text))
             else ret text))
          (\<lambda>_. ret (ascii ''(could not extract page content)'')))"

section \<open>The command dispatcher\<close>

text \<open>\<open>{action}\<close> inside an f-string: a \<open>str\<close> is written as it is, anything else through \<open>str()\<close>.\<close>

definition format_value :: "'s env \<Rightarrow> json \<Rightarrow> ustring" where
  "format_value e v = (case v of JStr s \<Rightarrow> s | _ \<Rightarrow> py_str e v)"

definition handle_command :: "'s env \<Rightarrow> json \<Rightarrow> json \<Rightarrow> int \<Rightarrow> (json, 's) action" where
  "handle_command e action cmd timeout_ms =
    (if action = JStr (ascii ''Navigate'') then
       and_then (lift (dict_get cmd (ascii ''url'') (JStr []))) (\<lambda>url.
         if \<not> truthy url
         then ret (JObj [(ascii ''success'', JBool False),
                         (ascii ''error'', JStr (ascii ''Missing 'url' parameter''))])
         else
           and_then (invoke (Goto url timeout_ms) (page_goto e url timeout_ms)) (\<lambda>_.
           and_then (invoke Title (page_title e)) (\<lambda>title.
           and_then (extract_readable e) (\<lambda>content.
           and_then (invoke Url (page_url e)) (\<lambda>current_url.
             ret (JObj [(ascii ''success'', JBool True),
                        (ascii ''data'', JObj [(ascii ''title'', JStr title),
                                               (ascii ''url'', JStr current_url),
                                               (ascii ''content'', JStr content)])]))))))
     else if action = JStr (ascii ''Click'') then
       and_then (lift (dict_get cmd (ascii ''selector'') (JStr []))) (\<lambda>selector.
         if \<not> truthy selector
         then ret (JObj [(ascii ''success'', JBool False),
                         (ascii ''error'', JStr (ascii ''Missing 'selector' parameter''))])
         else
           and_then (try_except (invoke (Click selector timeout_ms) (page_click e selector timeout_ms))
                      (\<lambda>_. invoke (ClickText selector timeout_ms) (page_click_text e selector timeout_ms))) (\<lambda>_.
           and_then (invoke (WaitForLoadState timeout_ms) (page_wait_for_load_state e timeout_ms)) (\<lambda>_.
           and_then (invoke Title (page_title e)) (\<lambda>title.
           and_then (invoke Url (page_url e)) (\<lambda>current_url.
             ret (JObj [(ascii ''success'', JBool True),
                        (ascii ''data'', JObj [(ascii ''clicked'', selector),
                                               (ascii ''title'', JStr title),
                                               (ascii ''url'', JStr current_url)])]))))))
     else if action = JStr (ascii ''Type'') then
       and_then (lift (dict_get cmd (ascii ''selector'') (JStr []))) (\<lambda>selector.
       and_then (lift (dict_get cmd (ascii ''text'') (JStr []))) (\<lambda>text.
         if \<not> truthy selector
         then ret (JObj [(ascii ''success'', JBool False),
                         (ascii ''error'', JStr (ascii ''Missing 'selector' parameter''))])
         else if \<not> truthy text
         then ret (JObj [(ascii ''success'', JBool False),
                         (ascii ''error'', JStr (ascii ''Missing 'text' parameter''))])
         else
           and_then (invoke (Fill selector text timeout_ms) (page_fill e selector text timeout_ms)) (\<lambda>_.
             ret (JObj [(ascii ''success'', JBool True),
                        (ascii ''data'', JObj [(ascii ''typed'', text),
                                               (ascii ''selector'', selector)])]))))
     else if action = JStr (ascii ''Screenshot'') then
       and_then (invoke Screenshot (page_screenshot e)) (\<lambda>screenshot_bytes.
       let b64 = b64encode e screenshot_bytes in
       and_then (invoke Url (page_url e)) (\<lambda>current_url.
         ret (JObj [(ascii ''success'', JBool True),
                    (ascii ''data'', JObj [(ascii ''image_base64'', JStr b64),
                                           (ascii ''format'', JStr (ascii ''png'')),
                                           (ascii ''url'', JStr current_url)])])))
     else if action = JStr (ascii ''ReadPage'') then
       and_then (invoke Title (page_title e)) (\<lambda>title.
       and_then (extract_readable e) (\<lambda>content.
       and_then (invoke Url (page_url e)) (\<lambda>current_url.
         ret (JObj [(ascii ''success'', JBool True),
                    (ascii ''data'', JObj [(ascii ''title'', JStr title),
                                           (ascii ''url'', JStr current_url),
                                           (ascii ''content'', JStr content)])]))))
     else if action = JStr (ascii ''Close'') then
       ret (JObj [(ascii ''success'', JBool True),
                  (ascii ''data'', JObj [(ascii ''status'', JStr (ascii ''closed''))])])
     else
       ret (JObj [(ascii ''success'', JBool False),
                  (ascii ''error'', JStr (ascii ''Unknown action: '' @ format_value e action))]))"

section \<open>The line protocol and the session lifecycle\<close>

text \<open>\<open>respond\<close> writes one line to standard output: the serialised object and a newline.\<close>

definition respond :: "'s env \<Rightarrow> json \<Rightarrow> 's bridge \<Rightarrow> 's bridge" where
  "respond e data st = st\<lparr>stdout := stdout st @ [json_dumps e data @ [10]]\<rparr>"

text \<open>The object written by the \<open>except Exception as e\<close> branch of the loop.\<close>

definition error_response :: "exn \<Rightarrow> json" where
  "error_response ex =
     JObj [(ascii ''success'', JBool False),
           (ascii ''error'', JStr (kind ex @ ascii '': '' @ message ex))]"

text \<open>
  The \<open>try\<close> statement of the loop body, on a stripped, non-empty line. It returns the
  value of \<open>action\<close> afterwards (\<open>None\<close> is \<open>JNull\<close>) and the new state.
\<close>

definition run_line :: "'s env \<Rightarrow> int \<Rightarrow> ustring \<Rightarrow> 's bridge \<Rightarrow> json \<times> 's bridge" where
  "run_line e timeout_ms line st =
     (case json_loads e line of
        Inl ex \<Rightarrow> (JNull, respond e (error_response ex) st)
      | Inr cmd \<Rightarrow>
          (case dict_get cmd (ascii ''action'') (JStr []) of
             Inl ex \<Rightarrow> (JNull, respond e (error_response ex) st)
           | Inr action \<Rightarrow>
               (case handle_command e action cmd timeout_ms st of
                  (Inl ex, st') \<Rightarrow> (action, respond e (error_response ex) st')
                | (Inr result, st') \<Rightarrow> (action, respond e result st'))))"

text \<open>
  \<open>for line in sys.stdin\<close>: the loop over the input lines. It returns the state and the
  lines it has not read.
\<close>

fun command_loop :: "'s env \<Rightarrow> int \<Rightarrow> ustring list \<Rightarrow> 's bridge \<Rightarrow> 's bridge \<times> ustring list" where
  "command_loop e timeout_ms [] st = (st, [])"
| "command_loop e timeout_ms (raw # rest) st =
     (let line = strip raw in
      if line = [] then command_loop e timeout_ms rest st
      else
        (case run_line e timeout_ms line st of
           (action, st') \<Rightarrow>
             if action = JStr (ascii ''Close'') then (st', rest)
             else command_loop e timeout_ms rest st'))"

text \<open>The three release calls stand in one \<open>try\<close> block, whose handler is \<open>pass\<close>.\<close>

definition cleanup :: "'s env \<Rightarrow> (unit, 's) action" where
  "cleanup e =
     try_except
       (and_then (invoke ContextClose (context_close e)) (\<lambda>_.
        and_then (invoke BrowserClose (browser_close e)) (\<lambda>_.
        invoke PwStop (pw_stop e))))
       (\<lambda>_. ret ())"

record args =
  headless :: bool
  width :: int
  height :: int
  timeout :: int

definition user_agent :: ustring where
  "user_agent = ascii ''Mozilla/5.0 (Windows NT 10.0; Win64; x64) AppleWebKit/537.36 (KHTML, like Gecko) Chrome/120.0.0.0 Safari/537.36''"

definition startup :: "'s env \<Rightarrow> args \<Rightarrow> int \<Rightarrow> (unit, 's) action" where
  "startup e a timeout_ms =
     and_then (invoke PwStart (pw_start e)) (\<lambda>_.
     and_then (invoke (Launch (headless a)) (chromium_launch e (headless a))) (\<lambda>_.
     and_then (invoke (NewContext (width a) (height a)) (new_context e (width a) (height a) user_agent)) (\<lambda>_.
     and_then (invoke NewPage (new_page e)) (\<lambda>_.
     and_then (invoke (SetDefaultTimeout timeout_ms) (set_default_timeout e timeout_ms)) (\<lambda>_.
     invoke (SetDefaultNavigationTimeout timeout_ms) (set_default_navigation_timeout e timeout_ms))))))"

definition main :: "'s env \<Rightarrow> args \<Rightarrow> ustring list \<Rightarrow> 's bridge \<Rightarrow> ((exn + unit) \<times> 's bridge) \<times> ustring list" where
  "main e a lines st =
     (let timeout_ms = timeout a * 1000 in
      if \<not> playwright_installed e
      then ((Inr (), respond e (JObj [(ascii ''success'', JBool False),
              (ascii ''error'', JStr (ascii ''playwright not installed. Run: pip install playwright && playwright install chromium''))]) st),
            lines)
      else
        (case startup e a timeout_ms st of
           (Inl ex, st1) \<Rightarrow> ((Inl ex, st1), lines)
         | (Inr _, st1) \<Rightarrow>
             (case command_loop e timeout_ms lines
                     (respond e (JObj [(ascii ''success'', JBool True),
                        (ascii ''data'', JObj [(ascii ''status'', JStr (ascii ''ready''))])]) st1) of
                (st2, unread) \<Rightarrow> (cleanup e st2, unread))))"

section \<open>The script evaluated in the page\<close>

text \<open>
  The argument of \<open>page.evaluate\<close> in \<open>extract_readable\<close> is a script of the
  repository. It runs against the DOM of the page. A node is a text node
  (\<open>nodeType\<close> 3), an element (\<open>nodeType\<close> 1) or another node, such as a comment. Of
  an element the script reads the tag name, lower-cased, the \<open>href\<close> property (empty
  when there is none), the \<open>role\<close> attribute, the classes and the id.
\<close>

record attrs =
  tag :: ustring
  href :: ustring
  role :: ustring
  class_list :: "ustring list"
  ident :: ustring

datatype dom = TextNode ustring | Element attrs "dom list" | OtherNode

text \<open>
  \<open>String.prototype.trim\<close> removes the white space and the line terminators of
  JavaScript from both ends.
\<close>

definition js_space :: "nat \<Rightarrow> bool" where
  "js_space c \<longleftrightarrow>
     (9 \<le> c \<and> c \<le> 13) \<or> c = 32 \<or> c = 160 \<or> c = 5760 \<or> (8192 \<le> c \<and> c \<le> 8202) \<or>
     c = 8232 \<or> c = 8233 \<or> c = 8239 \<or> c = 8287 \<or> c = 12288 \<or> c = 65279"

definition js_trim :: "ustring \<Rightarrow> ustring" where
  "js_trim s = rev (dropWhile js_space (rev (dropWhile js_space s)))"

text \<open>\<open>node.textContent\<close>: the text of the text nodes below the node, in document order.\<close>

fun text_content :: "dom \<Rightarrow> ustring" where
  "text_content (TextNode s) = s"
| "text_content (Element a cs) = concat (map text_content cs)"
| "text_content OtherNode = []"

fun has_tag :: "ustring \<Rightarrow> dom \<Rightarrow> bool" where
  "has_tag t (Element a cs) = (tag a = t)"
| "has_tag t n = False"

text \<open>
  \<open>root.querySelectorAll(t).forEach(el => el.remove())\<close>: every element with tag
  \<open>t\<close> below the root is taken out of its parent.
\<close>

fun prune :: "ustring \<Rightarrow> dom \<Rightarrow> dom" where
  "prune t (Element a cs) = Element a (map (prune t) (filter (\<lambda>c. \<not> has_tag t c) cs))"
| "prune t n = n"

definition remove_tags :: "ustring list" where
  "remove_tags = [ascii ''script'', ascii ''style'', ascii ''nav'', ascii ''footer'', ascii ''header'',
                  ascii ''aside'', ascii ''iframe'', ascii ''noscript'', ascii ''svg'', ascii ''canvas'']"

text \<open>
  \<open>querySelector('main, article, [role="main"], .content, #content')\<close>: the first
  element below the root, in document order, that matches one of the five selectors.
\<close>

definition matches_main :: "attrs \<Rightarrow> bool" where
  "matches_main a \<longleftrightarrow>
     tag a = ascii ''main'' \<or> tag a = ascii ''article'' \<or> role a = ascii ''main'' \<or>
     ascii ''content'' \<in> set (class_list a) \<or> ident a = ascii ''content''"

fun first_match :: "dom \<Rightarrow> dom option" and first_match_in :: "dom list \<Rightarrow> dom option" where
  "first_match (Element a cs) = (if matches_main a then Some (Element a cs) else first_match_in cs)"
| "first_match (TextNode s) = None"
| "first_match OtherNode = None"
| "first_match_in [] = None"
| "first_match_in (c # cs) = (case first_match c of Some m \<Rightarrow> Some m | None \<Rightarrow> first_match_in cs)"

fun query_main :: "dom \<Rightarrow> dom option" where
  "query_main (Element a cs) = first_match_in cs"
| "query_main n = None"

text \<open>The function \<open>walk\<close> of the script; the list is \<open>lines\<close>, in the order of the pushes.\<close>

fun walk :: "dom \<Rightarrow> ustring list" where
  "walk (TextNode s) = (let text = js_trim s in if text \<noteq> [] then [text] else [])"
| "walk OtherNode = []"
| "walk (Element a cs) =
     (if tag a \<in> set [ascii ''h1'', ascii ''h2'', ascii ''h3'', ascii ''h4'', ascii ''h5'', ascii ''h6'']
      then [[10] @ ascii ''## '' @ js_trim (text_content (Element a cs))]
      else if tag a = ascii ''li''
      then [ascii ''- '' @ js_trim (text_content (Element a cs))]
      else if tag a = ascii ''a'' \<and> href a \<noteq> []
      then [ascii ''['' @ js_trim (text_content (Element a cs)) @ ascii ''](''  @ href a @ ascii '')'']
      else if tag a \<in> set [ascii ''p'', ascii ''div'', ascii ''section'', ascii ''td'', ascii ''th'']
      then concat (map walk cs) @ [[]]
      else concat (map walk cs))"

text \<open>\<open>lines.join('\n')\<close>.\<close>

fun join :: "ustring list \<Rightarrow> ustring" where
  "join [] = []"
| "join [l] = l"
| "join (l # ls) = l @ [10] @ join ls"

text \<open>
  \<open>replace(/\n{3,}/g, '\n\n')\<close>: a run of three or more newlines becomes two. The
  number is the length of the run of newlines read so far.
\<close>

fun collapse_from :: "nat \<Rightarrow> ustring \<Rightarrow> ustring" where
  "collapse_from n [] = replicate (if 3 \<le> n then 2 else n) 10"
| "collapse_from n (c # cs) =
     (if c = 10 then collapse_from (Suc n) cs
      else replicate (if 3 \<le> n then 2 else n) 10 @ c # collapse_from 0 cs)"

definition collapse :: "ustring \<Rightarrow> ustring" where
  "collapse s = collapse_from 0 s"

text \<open>
  The page, as far as the script is concerned: the body of its document, which is
  \<open>null\<close> for a document without one. While the script runs there are two trees, the
  body of the document and the deep copy held in \<open>clone\<close>; the removals act on the copy.
\<close>

record page =
  document_body :: "dom option"

record js =
  live :: dom
  clone :: dom

definition readable_script :: "(ustring, 'r page_scheme) driver_op" where
  "readable_script pg =
     (case document_body pg of
        None \<Rightarrow>
          (Inl (Exn (ascii ''Error'')
                 (ascii ''TypeError: Cannot read properties of null (reading 'cloneNode')'')), pg)
      | Some body \<Rightarrow>
          (let js0 = \<lparr>live = body, clone = body\<rparr>;
               js1 = foldl (\<lambda>s t. s\<lparr>clone := prune t (clone s)\<rparr>) js0 remove_tags;
               main = query_main (clone js1);
               source = (case main of Some m \<Rightarrow> m | None \<Rightarrow> clone js1);
               lines = walk source;
               content = js_trim (collapse (join lines))
           in (Inr content, pg\<lparr>document_body := Some (live js1)\<rparr>)))"

section \<open>The single-shot agent SDK\<close>

text \<open>
  What user code called by \<open>Agent.run\<close> can raise. \<open>except Exception\<close> catches the
  \<open>Ordinary\<close> exceptions only; \<open>SystemExit\<close> and the other exceptions outside
  \<open>Exception\<close> (\<open>KeyboardInterrupt\<close>, \<open>GeneratorExit\<close>) pass through it. \<open>Exit n\<close> is
  a \<open>SystemExit\<close> that ends the process with status \<open>n\<close>: \<open>sys.exit(0)\<close> and
  \<open>sys.exit()\<close> are \<open>Exit 0\<close>, \<open>sys.exit(1)\<close> is \<open>Exit 1\<close>.
\<close>

datatype raised = Ordinary exn | Exit int | OtherBase exn

text \<open>
  The handler of an agent may return any Python object. \<open>PObject\<close> stands for the
  objects that are none of the built-in kinds listed; their truth value is asked of the
  object itself (\<open>__bool__\<close>, \<open>__len__\<close>), which is user code.
\<close>

datatype pyobj =
    PNone
  | PBool bool
  | PInt int
  | PFloat "64 word"
  | PStr ustring
  | PBytes "8 word list"
  | PList "pyobj list"
  | PTuple "pyobj list"
  | PSet "pyobj list"
  | PDict "(pyobj \<times> pyobj) list"
  | PObject nat

text \<open>
  The process around the agent: the line \<open>sys.stdin.readline()\<close> returns, the
  environment variables, the library functions \<open>json.loads\<close> and \<open>json.dumps\<close>,
  which may raise, and \<open>str\<close> and the truth value of an object, which may run user code.
\<close>

record sdk_env =
  stdin_line :: ustring
  environ :: "ustring \<Rightarrow> ustring option"
  sdk_loads :: "ustring \<Rightarrow> exn + json"
  sdk_dumps :: "pyobj \<Rightarrow> exn + ustring"
  sdk_str :: "pyobj \<Rightarrow> raised + ustring"
  object_truth :: "nat \<Rightarrow> raised + bool"

record proc =
  out :: "ustring list"
  err :: "ustring list"

text \<open>The truth value \<open>if metadata:\<close> tests.\<close>

fun obj_truthy :: "sdk_env \<Rightarrow> pyobj \<Rightarrow> raised + bool" where
  "obj_truthy env PNone = Inr False"
| "obj_truthy env (PBool b) = Inr b"
| "obj_truthy env (PInt i) = Inr (i \<noteq> 0)"
| "obj_truthy env (PFloat w) = Inr (push_bit 1 w \<noteq> 0)"
| "obj_truthy env (PStr s) = Inr (s \<noteq> [])"
| "obj_truthy env (PBytes bs) = Inr (bs \<noteq> [])"
| "obj_truthy env (PList xs) = Inr (xs \<noteq> [])"
| "obj_truthy env (PTuple xs) = Inr (xs \<noteq> [])"
| "obj_truthy env (PSet xs) = Inr (xs \<noteq> [])"
| "obj_truthy env (PDict kvs) = Inr (kvs \<noteq> [])"
| "obj_truthy env (PObject n) = object_truth env n"

text \<open>\<open>result.get(key, default)\<close> on a dict.\<close>

definition pydict_get :: "(pyobj \<times> pyobj) list \<Rightarrow> ustring \<Rightarrow> pyobj \<Rightarrow> pyobj" where
  "pydict_get kvs key dflt = (case map_of kvs (PStr key) of Some v \<Rightarrow> v | None \<Rightarrow> dflt)"

definition environ_get :: "sdk_env \<Rightarrow> ustring \<Rightarrow> ustring \<Rightarrow> ustring" where
  "environ_get env key dflt = (case environ env key of Some v \<Rightarrow> v | None \<Rightarrow> dflt)"

definition read_input :: "sdk_env \<Rightarrow> exn + json" where
  "read_input env =
     (let line = strip (stdin_line env) in
      if line = [] then
        (let agent_id = environ_get env (ascii ''OPENFANG_AGENT_ID'') [];
             msg = environ_get env (ascii ''OPENFANG_MESSAGE'') []
         in Inr (JObj [(ascii ''type'', JStr (ascii ''message'')),
                       (ascii ''agent_id'', JStr agent_id),
                       (ascii ''message'', JStr msg),
                       (ascii ''context'', JObj [])]))
      else sdk_loads env line)"

text \<open>
  The dict \<open>respond\<close> builds: \<open>"metadata"\<close> is set only when the metadata is truthy.
\<close>

definition response_dict :: "pyobj \<Rightarrow> pyobj option \<Rightarrow> pyobj" where
  "response_dict text metadata =
     (let response = [(PStr (ascii ''type''), PStr (ascii ''response'')), (PStr (ascii ''text''), text)]
      in case metadata of
           None \<Rightarrow> PDict response
         | Some m \<Rightarrow> PDict (response @ [(PStr (ascii ''metadata''), m)]))"

text \<open>
  \<open>respond(text, metadata)\<close> of the SDK. Nothing is printed when the truth test or
  \<open>json.dumps\<close> raises.
\<close>

definition sdk_respond :: "sdk_env \<Rightarrow> pyobj \<Rightarrow> pyobj \<Rightarrow> proc \<Rightarrow> (raised + unit) \<times> proc" where
  "sdk_respond env text metadata p =
     (case obj_truthy env metadata of
        Inl r \<Rightarrow> (Inl r, p)
      | Inr has_metadata \<Rightarrow>
          (case sdk_dumps env (response_dict text (if has_metadata then Some metadata else None)) of
             Inl ex \<Rightarrow> (Inl (Ordinary ex), p)
           | Inr line \<Rightarrow> (Inr (), p\<lparr>out := out p @ [line @ [10]]\<rparr>)))"

text \<open>\<open>log\<close> is only called with the ASCII levels \<open>"info"\<close> and \<open>"error"\<close>.\<close>

definition upper :: "ustring \<Rightarrow> ustring" where
  "upper s = map (\<lambda>c. if 97 \<le> c \<and> c \<le> 122 then c - 32 else c) s"

definition log :: "ustring \<Rightarrow> ustring \<Rightarrow> proc \<Rightarrow> proc" where
  "log msg level p = p\<lparr>err := err p @ [ascii ''['' @ upper level @ ascii ''] '' @ msg @ [10]]\<rparr>"

record agent =
  on_message :: "(json \<Rightarrow> json \<Rightarrow> raised + pyobj) option"
  on_setup :: "(unit \<Rightarrow> raised + unit) option"
  on_teardown :: "(unit \<Rightarrow> raised + unit) option"

text \<open>
  How \<open>run\<close> ends: it returns, or something raised leaves it; \<open>sys.exit(1)\<close> raises
  \<open>Exit 1\<close>. The process ends with a non-zero status when a \<open>SystemExit\<close> with a
  non-zero status or any other exception leaves \<open>run\<close> uncaught.
\<close>

datatype ending = Returns | Raised raised

fun exits_nonzero :: "ending \<Rightarrow> bool" where
  "exits_nonzero Returns = False"
| "exits_nonzero (Raised (Exit n)) = (n \<noteq> 0)"
| "exits_nonzero (Raised (Ordinary ex)) = True"
| "exits_nonzero (Raised (OtherBase ex)) = True"

text \<open>The three branches on the handler's result, each ending in \<open>respond\<close>.\<close>

definition write_result :: "sdk_env \<Rightarrow> pyobj \<Rightarrow> proc \<Rightarrow> (raised + unit) \<times> proc" where
  "write_result env result p =
     (case result of
        PStr s \<Rightarrow> sdk_respond env result PNone p
      | PDict kvs \<Rightarrow>
          (case sdk_str env result of
             Inl r \<Rightarrow> (Inl r, p)
           | Inr shown \<Rightarrow>
               sdk_respond env (pydict_get kvs (ascii ''text'') (PStr shown))
                 (pydict_get kvs (ascii ''metadata'') PNone) p)
      | _ \<Rightarrow>
          (case sdk_str env result of
             Inl r \<Rightarrow> (Inl r, p)
           | Inr shown \<Rightarrow> sdk_respond env (PStr shown) PNone p))"

text \<open>The body of the \<open>try\<close> statement of \<open>Agent.run\<close>.\<close>

definition run_try :: "sdk_env \<Rightarrow> agent \<Rightarrow> (json \<Rightarrow> json \<Rightarrow> raised + pyobj) \<Rightarrow> proc \<Rightarrow> (raised + unit) \<times> proc" where
  "run_try env ag h p =
     (case (case on_setup ag of Some f \<Rightarrow> f () | None \<Rightarrow> Inr ()) of
        Inl r \<Rightarrow> (Inl r, p)
      | Inr _ \<Rightarrow>
     (case read_input env of
        Inl ex \<Rightarrow> (Inl (Ordinary ex), p)
      | Inr data \<Rightarrow>
     (case dict_get data (ascii ''message'') (JStr []) of
        Inl ex \<Rightarrow> (Inl (Ordinary ex), p)
      | Inr msg \<Rightarrow>
     (case dict_get data (ascii ''context'') (JObj []) of
        Inl ex \<Rightarrow> (Inl (Ordinary ex), p)
      | Inr ctx \<Rightarrow>
     (case h msg ctx of
        Inl r \<Rightarrow> (Inl r, p)
      | Inr result \<Rightarrow> write_result env result p)))))"

text \<open>
  The \<open>finally\<close> clause: an \<open>Exception\<close> from the teardown is logged; anything else it
  raises leaves \<open>run\<close> in place of what was under way.
\<close>

definition run_finally :: "agent \<Rightarrow> proc \<Rightarrow> raised option \<times> proc" where
  "run_finally ag p =
     (case on_teardown ag of
        None \<Rightarrow> (None, p)
      | Some f \<Rightarrow>
          (case f () of
             Inr _ \<Rightarrow> (None, p)
           | Inl (Ordinary ex) \<Rightarrow> (None, log (ascii ''Teardown error: '' @ message ex) (ascii ''error'') p)
           | Inl r \<Rightarrow> (Some r, p)))"

text \<open>
  The \<open>try\<close> statement with its \<open>except Exception\<close> handler, before the \<open>finally\<close>
  clause runs.
\<close>

definition run_guarded :: "sdk_env \<Rightarrow> agent \<Rightarrow> (json \<Rightarrow> json \<Rightarrow> raised + pyobj) \<Rightarrow> proc \<Rightarrow> ending \<times> proc" where
  "run_guarded env ag h p =
     (case run_try env ag h p of
        (Inr _, p1) \<Rightarrow> (Returns, p1)
      | (Inl (Ordinary ex), p1) \<Rightarrow>
          (case sdk_respond env (PStr (ascii ''Error: '' @ message ex)) PNone
                  (log (ascii ''Agent error: '' @ message ex) (ascii ''error'') p1) of
             (Inl r, p2) \<Rightarrow> (Raised r, p2)
           | (Inr _, p2) \<Rightarrow> (Raised (Exit 1), p2))
      | (Inl r, p1) \<Rightarrow> (Raised r, p1))"

definition run :: "sdk_env \<Rightarrow> agent \<Rightarrow> proc \<Rightarrow> ending \<times> proc" where
  "run env ag p =
     (case on_message ag of
        None \<Rightarrow> (Raised (Exit 1), log (ascii ''No message handler registered'') (ascii ''error'') p)
      | Some h \<Rightarrow>
          (case run_guarded env ag h p of
             (ending, p1) \<Rightarrow>
               (case run_finally ag p1 of
                  (Some r, p2) \<Rightarrow> (Raised r, p2)
                | (None, p2) \<Rightarrow> (ending, p2))))"

section \<open>Notions used to state the properties\<close>

text \<open>A line has content when stripping it leaves something.\<close>

definition has_content :: "ustring \<Rightarrow> bool" where
  "has_content raw \<longleftrightarrow> strip raw \<noteq> []"

text \<open>
  A line closes the session when it parses to an object whose \<open>action\<close> is \<open>"Close"\<close>:
  the condition of the \<open>break\<close> at the end of the loop body.
\<close>

definition is_close_line :: "'s env \<Rightarrow> ustring \<Rightarrow> bool" where
  "is_close_line e raw \<longleftrightarrow>
     strip raw \<noteq> [] \<and>
     (case json_loads e (strip raw) of
        Inl ex \<Rightarrow> False
      | Inr cmd \<Rightarrow> dict_get cmd (ascii ''action'') (JStr []) = Inr (JStr (ascii ''Close'')))"

text \<open>The lines the loop reads: all of them up to and including the first closing one.\<close>

fun processed :: "'s env \<Rightarrow> ustring list \<Rightarrow> ustring list" where
  "processed e [] = []"
| "processed e (raw # rest) = (if is_close_line e raw then [raw] else raw # processed e rest)"

text \<open>An action that leaves standard output as it found it.\<close>

definition keeps_stdout :: "('a, 's) action \<Rightarrow> bool" where
  "keeps_stdout m \<longleftrightarrow> (\<forall>st. stdout (snd (m st)) = stdout st)"

text \<open>
  An action whose result and whose effect on the browser depend on the browser state
  alone, not on the calls made or the lines written before.
\<close>

definition browser_only :: "('a, 's) action \<Rightarrow> bool" where
  "browser_only m \<longleftrightarrow>
     (\<forall>st st'. browser st = browser st' \<longrightarrow>
        fst (m st) = fst (m st') \<and> browser (snd (m st)) = browser (snd (m st')))"

text \<open>A command object without one of its fields.\<close>

definition without_key :: "ustring \<Rightarrow> (ustring \<times> json) list \<Rightarrow> (ustring \<times> json) list" where
  "without_key k kvs = filter (\<lambda>kv. fst kv \<noteq> k) kvs"

text \<open>The three missing-parameter responses of the dispatcher, by field name.\<close>

definition missing_parameter :: "string \<Rightarrow> json" where
  "missing_parameter name =
     JObj [(ascii ''success'', JBool False),
           (ascii ''error'', JStr (ascii ''Missing '' @ [39] @ ascii name @ [39] @ ascii '' parameter''))]"

text \<open>The text the script computes from a body: the script as a function of the tree.\<close>

definition readable_text :: "dom \<Rightarrow> ustring" where
  "readable_text body =
     (let cleaned = foldl (\<lambda>c t. prune t c) body remove_tags;
          source = (case query_main cleaned of Some m \<Rightarrow> m | None \<Rightarrow> cleaned)
      in js_trim (collapse (join (walk source))))"

text \<open>A driver call that reads: it leaves the browser as it found it.\<close>

definition reads_only :: "('a, 's) driver_op \<Rightarrow> bool" where
  "reads_only f \<longleftrightarrow> (\<forall>b. snd (f b) = b)"

text \<open>An action that leaves the browser as it found it.\<close>

definition keeps_browser :: "('a, 's) action \<Rightarrow> bool" where
  "keeps_browser m \<longleftrightarrow> (\<forall>st. browser (snd (m st)) = browser st)"

text \<open>
  The outcome of the handler, when \<open>run\<close> gets as far as calling it: the steps of the
  \<open>try\<close> block before the call may raise first.
\<close>

definition handler_call :: "sdk_env \<Rightarrow> agent \<Rightarrow> (json \<Rightarrow> json \<Rightarrow> raised + pyobj) \<Rightarrow> (raised + pyobj) option" where
  "handler_call env ag h =
     (case (case on_setup ag of Some f \<Rightarrow> f () | None \<Rightarrow> Inr ()) of
        Inl r \<Rightarrow> None
      | Inr _ \<Rightarrow>
     (case read_input env of
        Inl ex \<Rightarrow> None
      | Inr data \<Rightarrow>
     (case dict_get data (ascii ''message'') (JStr []) of
        Inl ex \<Rightarrow> None
      | Inr msg \<Rightarrow>
     (case dict_get data (ascii ''context'') (JObj []) of
        Inl ex \<Rightarrow> None
      | Inr ctx \<Rightarrow> Some (h msg ctx)))))"

text \<open>A teardown that raises nothing outside \<open>Exception\<close>.\<close>

definition quiet_teardown :: "agent \<Rightarrow> bool" where
  "quiet_teardown ag \<longleftrightarrow>
     (case on_teardown ag of
        None \<Rightarrow> True
      | Some f \<Rightarrow> (case f () of Inr u \<Rightarrow> True | Inl (Ordinary ex) \<Rightarrow> True | Inl r \<Rightarrow> False))"

section \<open>A concrete environment\<close>

text \<open>
  A small driver on which the definitions can be run: the browser state counts the
  calls that change the page.
\<close>

definition demo_loads :: "ustring \<Rightarrow> exn + json" where
  \<open>demo_loads line =
     (if line = ascii ''{"action":"Close"}'' then Inr (JObj [(ascii ''action'', JStr (ascii ''Close''))])
      else if line = ascii ''{"action":"ReadPage"}'' then Inr (JObj [(ascii ''action'', JStr (ascii ''ReadPage''))])
      else if line = ascii ''{"url":"about:blank"}'' then Inr (JObj [(ascii ''url'', JStr (ascii ''about:blank''))])
      else Inl (Exn (ascii ''JSONDecodeError'') (ascii ''Expecting value: line 1 column 1 (char 0)'')))\<close>

definition demo_dumps :: "json \<Rightarrow> ustring" where
  \<open>demo_dumps v =
     (if dict_get v (ascii ''success'') JNull = Inr (JBool True)
      then ascii ''{"success": true}'' else ascii ''{"success": false}'')\<close>

definition succeed :: "'a \<Rightarrow> ('a, nat) driver_op" where
  "succeed x s = (Inr x, s)"

definition change :: "(unit, nat) driver_op" where
  "change s = (Inr (), Suc s)"

definition fail :: "string \<Rightarrow> ('a, nat) driver_op" where
  "fail msg s = (Inl (Exn (ascii ''Error'') (ascii msg)), s)"

definition demo_env :: "nat env" where
  "demo_env =
     \<lparr>json_loads = demo_loads, json_dumps = demo_dumps,
      py_str = (\<lambda>v. ascii (type_name v)), b64encode = (\<lambda>bs. []),
      playwright_installed = True,
      pw_start = succeed (), chromium_launch = (\<lambda>h. succeed ()),
      new_context = (\<lambda>w h ua. succeed ()), new_page = succeed (),
      set_default_timeout = (\<lambda>t. succeed ()),
      set_default_navigation_timeout = (\<lambda>t. succeed ()),
      page_goto = (\<lambda>url t. change), page_title = succeed (ascii ''Example''),
      page_url = succeed (ascii ''about:blank''),
      page_evaluate = succeed (ascii ''Hello''),
      page_inner_text = (\<lambda>sel. succeed (ascii ''Hello'')),
      page_click = (\<lambda>sel t. change), page_click_text = (\<lambda>sel t. change),
      page_wait_for_load_state = (\<lambda>t. succeed ()),
      page_fill = (\<lambda>sel txt t. change), page_screenshot = succeed [],
      context_close = succeed (), browser_close = succeed (), pw_stop = succeed ()\<rparr>"

definition demo_bridge :: "nat bridge" where
  "demo_bridge = \<lparr>browser = 0, calls = [], stdout = []\<rparr>"


text \<open>An SDK process on which \<open>run\<close> can be traced, and five agents.\<close>

definition demo_sdk_env :: sdk_env where
  "demo_sdk_env =
     \<lparr>stdin_line = [], environ = (\<lambda>k. None),
      sdk_loads = (\<lambda>line. Inl (Exn (ascii ''JSONDecodeError'') (ascii ''Expecting value''))),
      sdk_dumps = (\<lambda>v. case v of
                         PDict [(k, t), (k', PStr s)] \<Rightarrow> Inr (ascii ''response: '' @ s)
                       | PDict [(k, t), (k', PStr s), (k'', m)] \<Rightarrow> Inr (ascii ''response with metadata: '' @ s)
                       | _ \<Rightarrow> Inl (Exn (ascii ''TypeError'') (ascii ''not JSON serializable''))),
      sdk_str = (\<lambda>v. Inr (ascii ''<object>'')),
      object_truth = (\<lambda>n. Inr True)\<rparr>"

definition echo_handler :: "json \<Rightarrow> json \<Rightarrow> raised + pyobj" where
  "echo_handler msg ctx = Inr (PStr (ascii ''You said: '' @ (case msg of JStr s \<Rightarrow> s | _ \<Rightarrow> [])))"

definition echo_agent :: agent where
  "echo_agent = \<lparr>on_message = Some echo_handler, on_setup = None, on_teardown = None\<rparr>"

definition failing_handler :: "json \<Rightarrow> json \<Rightarrow> raised + pyobj" where
  "failing_handler msg ctx = Inl (Ordinary (Exn (ascii ''ValueError'') (ascii ''boom'')))"

definition failing_agent :: agent where
  "failing_agent = \<lparr>on_message = Some failing_handler, on_setup = None, on_teardown = None\<rparr>"

definition exiting_handler :: "json \<Rightarrow> json \<Rightarrow> raised + pyobj" where
  "exiting_handler msg ctx = Inl (Exit 0)"

definition exiting_agent :: agent where
  "exiting_agent = \<lparr>on_message = Some exiting_handler, on_setup = None, on_teardown = None\<rparr>"

definition dict_handler :: "json \<Rightarrow> json \<Rightarrow> raised + pyobj" where
  "dict_handler msg ctx =
     Inr (PDict [(PStr (ascii ''text''), PStr (ascii ''done'')), (PStr (ascii ''metadata''), PTuple [])])"

definition dict_agent :: agent where
  "dict_agent = \<lparr>on_message = Some dict_handler, on_setup = None, on_teardown = None\<rparr>"

definition number_handler :: "json \<Rightarrow> json \<Rightarrow> raised + pyobj" where
  "number_handler msg ctx = Inr (PInt 42)"

definition number_agent :: agent where
  "number_agent = \<lparr>on_message = Some number_handler, on_setup = None, on_teardown = None\<rparr>"

definition no_handler_agent :: agent where
  "no_handler_agent = \<lparr>on_message = None, on_setup = None, on_teardown = None\<rparr>"

definition demo_proc :: proc where
  "demo_proc = \<lparr>out = [], err = []\<rparr>"

text \<open>
  The string an extraction is made from: what the structured walk returned or, when
  that raised, what the plain-text fallback returned.
\<close>

definition extracted :: "'s env \<Rightarrow> 's bridge \<Rightarrow> ustring \<Rightarrow> bool" where
  "extracted e st content \<longleftrightarrow>
     (case page_evaluate e (browser st) of
        (Inr c, b) \<Rightarrow> content = c
      | (Inl ex, b) \<Rightarrow> fst (page_inner_text e (ascii ''body'') b) = Inr content)"

text \<open>Variants of the driver: a page of 50,001 characters, and a context that fails to close.\<close>

definition long_page_env :: "nat env" where
  "long_page_env = demo_env\<lparr>page_evaluate := succeed (replicate 50001 97)\<rparr>"

definition broken_close_env :: "nat env" where
  "broken_close_env = demo_env\<lparr>context_close := fail ''Target closed''\<rparr>"

definition close_line_text :: ustring where
  \<open>close_line_text = ascii ''{"action":"Close"}''\<close>

definition read_page_line_text :: ustring where
  \<open>read_page_line_text = ascii ''{"action":"ReadPage"}''\<close>

definition no_action_line_text :: ustring where
  \<open>no_action_line_text = ascii ''{"url":"about:blank"}''\<close>

definition demo_lines :: "ustring list" where
  "demo_lines = [ascii ''not json'', ascii '' '', close_line_text @ [10], read_page_line_text @ [10]]"

text \<open>
  A page with a navigation bar, a main region and a script, and a driver whose
  \<open>evaluate\<close> runs the extraction script on it.
\<close>

definition element :: "string \<Rightarrow> dom list \<Rightarrow> dom" where
  "element t cs = Element \<lparr>tag = ascii t, href = [], role = [], class_list = [], ident = []\<rparr> cs"

definition demo_body :: dom where
  "demo_body =
     element ''body''
       [element ''nav'' [TextNode (ascii ''Home'')],
        element ''main''
          [element ''h1'' [TextNode (ascii ''Title'')],
           element ''p'' [TextNode (ascii '' Hello ''), OtherNode]],
        element ''script'' [TextNode (ascii ''track()'')]]"

definition demo_page :: page where
  "demo_page = \<lparr>document_body = Some demo_body\<rparr>"

definition reading :: "'a \<Rightarrow> ('a, page) driver_op" where
  "reading x pg = (Inr x, pg)"

definition page_env :: "page env" where
  "page_env =
     \<lparr>json_loads = demo_loads, json_dumps = demo_dumps,
      py_str = (\<lambda>v. ascii (type_name v)), b64encode = (\<lambda>bs. []),
      playwright_installed = True,
      pw_start = reading (), chromium_launch = (\<lambda>h. reading ()),
      new_context = (\<lambda>w h ua. reading ()), new_page = reading (),
      set_default_timeout = (\<lambda>t. reading ()),
      set_default_navigation_timeout = (\<lambda>t. reading ()),
      page_goto = (\<lambda>url t pg. (Inr (), pg\<lparr>document_body := None\<rparr>)),
      page_title = reading (ascii ''Example''),
      page_url = reading (ascii ''about:blank''),
      page_evaluate = readable_script,
      page_inner_text = (\<lambda>sel. reading (ascii ''Home Title Hello'')),
      page_click = (\<lambda>sel t. reading ()), page_click_text = (\<lambda>sel t. reading ()),
      page_wait_for_load_state = (\<lambda>t. reading ()),
      page_fill = (\<lambda>sel txt t. reading ()), page_screenshot = reading [],
      context_close = reading (), browser_close = reading (), pw_stop = reading ()\<rparr>"

definition page_bridge :: "page bridge" where
  "page_bridge = \<lparr>browser = demo_page, calls = [], stdout = []\<rparr>"

section \<open>Basic facts\<close>

lemma length_ascii [simp]: "length (ascii s) = length s"
  by (simp add: ascii_def)

lemma ascii_eq_iff [simp]: "ascii s = ascii t \<longleftrightarrow> s = t"
  by (simp add: ascii_def inj_map_eq_map inj_of_char)

lemma ascii_Nil_iff [simp]: "ascii s = [] \<longleftrightarrow> s = []" "[] = ascii s \<longleftrightarrow> s = []"
  by (auto simp: ascii_def)

lemma ascii_append: "ascii (s @ t) = ascii s @ ascii t" by (simp add: ascii_def)

lemma read_nat_snoc: "read_nat (ds @ [d]) = 10 * read_nat ds + (d - 48)"
  by (simp add: read_nat_def)

lemma read_nat_str_nat: "read_nat (str_nat n) = n"
proof (induction n rule: str_nat.induct)
  case (1 n)
  show ?case
  proof (cases "n < 10")
    case True
    then show ?thesis by (simp add: str_nat.simps read_nat_def)
  next
    case False
    with 1 show ?thesis
      by (subst str_nat.simps) (simp add: read_nat_snoc)
  qed
qed

section \<open>Facts about the dispatcher\<close>

lemma unknown_action_error:
  assumes "x \<notin> {ascii ''Navigate'', ascii ''Click'', ascii ''Type'', ascii ''Screenshot'',
                 ascii ''ReadPage'', ascii ''Close''}"
  shows "handle_command e (JStr x) cmd timeout_ms st =
           (Inr (JObj [(ascii ''success'', JBool False),
                       (ascii ''error'', JStr (ascii ''Unknown action: '' @ x))]), st)"
  using assms by (simp add: handle_command_def ret_def format_value_def)

lemma navigate_missing_url:
  assumes "map_of kvs (ascii ''url'') = None"
  shows "handle_command e (JStr (ascii ''Navigate'')) (JObj kvs) timeout_ms st =
           (Inr (JObj [(ascii ''success'', JBool False),
                       (ascii ''error'', JStr (ascii ''Missing 'url' parameter''))]), st)"
  using assms by (simp add: handle_command_def ret_def and_then_def lift_def dict_get_def)

lemma map_of_without_key:
  "map_of (without_key k kvs) k' = (if k' = k then None else map_of kvs k')"
  by (induction kvs) (auto simp: without_key_def)

lemma navigate_falsy:
  "\<not> truthy (case map_of kvs (ascii ''url'') of Some v \<Rightarrow> v | None \<Rightarrow> JStr []) \<Longrightarrow>
   handle_command e (JStr (ascii ''Navigate'')) (JObj kvs) t st = (Inr (missing_parameter ''url''), st)"
  by (simp add: handle_command_def ret_def and_then_def lift_def dict_get_def missing_parameter_def ascii_def)

lemma click_falsy:
  "\<not> truthy (case map_of kvs (ascii ''selector'') of Some v \<Rightarrow> v | None \<Rightarrow> JStr []) \<Longrightarrow>
   handle_command e (JStr (ascii ''Click'')) (JObj kvs) t st = (Inr (missing_parameter ''selector''), st)"
  by (simp add: handle_command_def ret_def and_then_def lift_def dict_get_def missing_parameter_def ascii_def)

lemma type_falsy_selector:
  "\<not> truthy (case map_of kvs (ascii ''selector'') of Some v \<Rightarrow> v | None \<Rightarrow> JStr []) \<Longrightarrow>
   handle_command e (JStr (ascii ''Type'')) (JObj kvs) t st = (Inr (missing_parameter ''selector''), st)"
  by (simp add: handle_command_def ret_def and_then_def lift_def dict_get_def missing_parameter_def ascii_def)

lemma type_falsy_text:
  "truthy (case map_of kvs (ascii ''selector'') of Some v \<Rightarrow> v | None \<Rightarrow> JStr []) \<Longrightarrow>
   \<not> truthy (case map_of kvs (ascii ''text'') of Some v \<Rightarrow> v | None \<Rightarrow> JStr []) \<Longrightarrow>
   handle_command e (JStr (ascii ''Type'')) (JObj kvs) t st = (Inr (missing_parameter ''text''), st)"
  by (simp add: handle_command_def ret_def and_then_def lift_def dict_get_def missing_parameter_def ascii_def)

lemma extract_cases:
  "fst (extract_readable e st) =
    (case page_evaluate e (browser st) of
       (Inr content, b) \<Rightarrow> Inr (if length content > 50000 then take 50000 content @ truncation_marker (length content) else content)
     | (Inl ex, b) \<Rightarrow>
        (case page_inner_text e (ascii ''body'') b of
           (Inr text, b') \<Rightarrow> Inr (if length text > 50000 then take 50000 text @ truncation_marker (length text) else text)
         | (Inl ex, b') \<Rightarrow> Inr (ascii ''(could not extract page content)'')))"
  by (simp add: extract_readable_def try_except_def ret_def and_then_def invoke_def Let_def split: prod.splits sum.splits)

text \<open>The dispatcher never writes to standard output.\<close>

lemma keeps_ret: "keeps_stdout (ret x)" by (simp add: keeps_stdout_def ret_def)
lemma keeps_lift: "keeps_stdout (lift r)" by (simp add: keeps_stdout_def lift_def)
lemma keeps_invoke: "keeps_stdout (invoke c f)"
  by (simp add: keeps_stdout_def invoke_def split: prod.splits)
lemma keeps_and_then: "keeps_stdout m \<Longrightarrow> (\<And>x. keeps_stdout (k x)) \<Longrightarrow> keeps_stdout (and_then m k)"
  unfolding keeps_stdout_def and_then_def
  by (auto split: prod.splits sum.splits) (metis snd_conv)+
lemma keeps_try_except: "keeps_stdout m \<Longrightarrow> (\<And>x. keeps_stdout (h x)) \<Longrightarrow> keeps_stdout (try_except m h)"
  unfolding keeps_stdout_def try_except_def
  by (auto split: prod.splits sum.splits) (metis snd_conv)+
lemma keeps_if: "keeps_stdout a \<Longrightarrow> keeps_stdout b \<Longrightarrow> keeps_stdout (if c then a else b)" by simp
lemma keeps_let: "(\<And>x. keeps_stdout (f x)) \<Longrightarrow> keeps_stdout (Let v f)" by simp

lemmas keeps_intros = keeps_ret keeps_lift keeps_invoke keeps_and_then keeps_try_except keeps_if keeps_let

lemma keeps_extract_readable: "keeps_stdout (extract_readable e)"
  unfolding extract_readable_def by (intro keeps_intros)

lemma keeps_handle_command: "keeps_stdout (handle_command e action cmd t)"
  unfolding handle_command_def by (intro keeps_intros keeps_extract_readable)

text \<open>\<open>ReadPage\<close> looks at the browser state only.\<close>

lemma bo_ret: "browser_only (ret x)" by (simp add: browser_only_def ret_def)
lemma bo_lift: "browser_only (lift r)" by (simp add: browser_only_def lift_def)
lemma bo_invoke: "browser_only (invoke c f)"
  by (simp add: browser_only_def invoke_def split: prod.splits)
lemma bo_and_then:
  assumes "browser_only (m :: ('x, 's) action)" and "\<And>x. browser_only (k x)"
  shows "browser_only (and_then m k)"
  unfolding browser_only_def
proof (intro allI impI)
  fix st st' :: "'s bridge"
  assume eq: "browser st = browser st'"
  obtain r s1 where a: "m st = (r, s1)" by (cases "m st")
  obtain r' s1' where b: "m st' = (r', s1')" by (cases "m st'")
  from assms(1) eq have "fst (m st) = fst (m st') \<and> browser (snd (m st)) = browser (snd (m st'))"
    unfolding browser_only_def by blast
  with a b have rr: "r' = r" and bb: "browser s1 = browser s1'" by simp_all
  show "fst (and_then m k st) = fst (and_then m k st') \<and>
        browser (snd (and_then m k st)) = browser (snd (and_then m k st'))"
  proof (cases r)
    case (Inl ex)
    with a b rr bb show ?thesis by (simp add: and_then_def)
  next
    case (Inr x)
    from assms(2) [of x] bb
    have "fst (k x s1) = fst (k x s1') \<and> browser (snd (k x s1)) = browser (snd (k x s1'))"
      unfolding browser_only_def by blast
    with a b rr Inr show ?thesis by (simp add: and_then_def)
  qed
qed
lemma bo_try_except:
  assumes "browser_only (m :: ('x, 's) action)" and "\<And>x. browser_only (h x)"
  shows "browser_only (try_except m h)"
  unfolding browser_only_def
proof (intro allI impI)
  fix st st' :: "'s bridge"
  assume eq: "browser st = browser st'"
  obtain r s1 where a: "m st = (r, s1)" by (cases "m st")
  obtain r' s1' where b: "m st' = (r', s1')" by (cases "m st'")
  from assms(1) eq have "fst (m st) = fst (m st') \<and> browser (snd (m st)) = browser (snd (m st'))"
    unfolding browser_only_def by blast
  with a b have rr: "r' = r" and bb: "browser s1 = browser s1'" by simp_all
  show "fst (try_except m h st) = fst (try_except m h st') \<and>
        browser (snd (try_except m h st)) = browser (snd (try_except m h st'))"
  proof (cases r)
    case (Inr x)
    with a b rr bb show ?thesis by (simp add: try_except_def)
  next
    case (Inl ex)
    from assms(2) [of ex] bb
    have "fst (h ex s1) = fst (h ex s1') \<and> browser (snd (h ex s1)) = browser (snd (h ex s1'))"
      unfolding browser_only_def by blast
    with a b rr Inl show ?thesis by (simp add: try_except_def)
  qed
qed
lemma bo_if: "browser_only a \<Longrightarrow> browser_only b \<Longrightarrow> browser_only (if c then a else b)" by simp
lemma bo_let: "(\<And>x. browser_only (f x)) \<Longrightarrow> browser_only (Let v f)" by simp

lemmas bo_intros = bo_ret bo_lift bo_invoke bo_and_then bo_try_except bo_if bo_let

lemma bo_extract_readable: "browser_only (extract_readable e)"
  unfolding extract_readable_def by (intro bo_intros)

lemma read_page_unfold:
  "handle_command e (JStr (ascii ''ReadPage'')) cmd t =
       and_then (invoke Title (page_title e)) (\<lambda>title.
       and_then (extract_readable e) (\<lambda>content.
       and_then (invoke Url (page_url e)) (\<lambda>current_url.
         ret (JObj [(ascii ''success'', JBool True),
                    (ascii ''data'', JObj [(ascii ''title'', JStr title),
                                           (ascii ''url'', JStr current_url),
                                           (ascii ''content'', JStr content)])]))))"
  by (simp add: handle_command_def)

lemma bo_read_page: "browser_only (handle_command e (JStr (ascii ''ReadPage'')) cmd t)"
  unfolding read_page_unfold by (intro bo_intros bo_extract_readable)

lemma read_page_twice:
  assumes "handle_command e (JStr (ascii ''ReadPage'')) cmd t st = (r1, st1)"
    and "browser st1 = browser st"
  shows "fst (handle_command e (JStr (ascii ''ReadPage'')) cmd' t' st1) = r1"
proof -
  have "handle_command e (JStr (ascii ''ReadPage'')) cmd' t' = handle_command e (JStr (ascii ''ReadPage'')) cmd t"
    by (simp add: read_page_unfold)
  moreover have "fst (handle_command e (JStr (ascii ''ReadPage'')) cmd t st1) =
      fst (handle_command e (JStr (ascii ''ReadPage'')) cmd t st)"
    using bo_read_page [of e cmd t] assms(2) unfolding browser_only_def by blast
  ultimately show ?thesis using assms(1) by (simp only: fst_conv)
qed

section \<open>Facts about the loop and the teardown\<close>

lemma run_line_stdout:
  "\<exists>data. stdout (snd (run_line e t line st)) = stdout st @ [json_dumps e data @ [10]]"
proof -
  have k: "stdout (snd (handle_command e action cmd t st)) = stdout st" for action cmd
    using keeps_handle_command [of e action cmd t] by (simp add: keeps_stdout_def)
  show ?thesis
    unfolding run_line_def
    by (auto simp: respond_def split: sum.splits prod.splits) (metis k snd_conv)+
qed

lemma run_line_action:
  "fst (run_line e t line st) = JStr (ascii ''Close'') \<longleftrightarrow>
     (case json_loads e line of Inl ex \<Rightarrow> False
      | Inr cmd \<Rightarrow> dict_get cmd (ascii ''action'') (JStr []) = Inr (JStr (ascii ''Close'')))"
  unfolding run_line_def by (auto split: sum.splits prod.splits)

lemma command_loop_step:
  "command_loop e t (raw # rest) st =
     (if \<not> has_content raw then command_loop e t rest st
      else if is_close_line e raw then (snd (run_line e t (strip raw) st), rest)
      else command_loop e t rest (snd (run_line e t (strip raw) st)))"
proof -
  have a: "has_content raw \<Longrightarrow>
      fst (run_line e t (strip raw) st) = JStr (ascii ''Close'') \<longleftrightarrow> is_close_line e raw"
    by (simp add: run_line_action is_close_line_def has_content_def)
  show ?thesis
  proof (cases "has_content raw")
    case False
    then show ?thesis by (simp add: has_content_def)
  next
    case True
    then have "strip raw \<noteq> []" by (simp add: has_content_def)
    with a [OF True] True show ?thesis
      by (simp add: case_prod_beta)
  qed
qed

declare command_loop.simps(2) [simp del]

lemma command_loop_unread:
  "snd (command_loop e t lines st) = drop (length (processed e lines)) lines"
proof (induction lines arbitrary: st)
  case Nil
  then show ?case by simp
next
  case (Cons raw rest)
  have "is_close_line e raw \<Longrightarrow> has_content raw" by (simp add: is_close_line_def has_content_def)
  with Cons show ?case by (auto simp: command_loop_step)
qed

lemma command_loop_stdout:
  "\<exists>outs. stdout (fst (command_loop e t lines st)) = stdout st @ outs \<and>
          length outs = length (filter has_content (processed e lines)) \<and>
          (\<forall>l \<in> set outs. \<exists>data. l = json_dumps e data @ [10])"
proof (induction lines arbitrary: st)
  case Nil
  then show ?case by simp
next
  case (Cons raw rest)
  have c: "is_close_line e raw \<Longrightarrow> has_content raw" by (simp add: is_close_line_def has_content_def)
  obtain data where d: "stdout (snd (run_line e t (strip raw) st)) = stdout st @ [json_dumps e data @ [10]]"
    using run_line_stdout by blast
  show ?case
  proof (cases "has_content raw")
    case False
    with Cons [of st] c show ?thesis by (auto simp: command_loop_step)
  next
    case True
    show ?thesis
    proof (cases "is_close_line e raw")
      case True
      with \<open>has_content raw\<close> d show ?thesis by (simp add: command_loop_step) blast
    next
      case False
      obtain outs where o: "stdout (fst (command_loop e t rest (snd (run_line e t (strip raw) st)))) =
           stdout (snd (run_line e t (strip raw) st)) @ outs"
          "length outs = length (filter has_content (processed e rest))"
          "\<forall>l \<in> set outs. \<exists>data. l = json_dumps e data @ [10]"
        using Cons by blast
      have "stdout (fst (command_loop e t (raw # rest) st)) = stdout st @ ((json_dumps e data @ [10]) # outs)"
        using False True o d by (simp add: command_loop_step)
      moreover have "length ((json_dumps e data @ [10]) # outs) = length (filter has_content (processed e (raw # rest)))"
        using False True o by simp
      moreover have "\<forall>l \<in> set ((json_dumps e data @ [10]) # outs). \<exists>data. l = json_dumps e data @ [10]"
        using o by auto
      ultimately show ?thesis by blast
    qed
  qed
qed

lemma processed_stop:
  "processed e lines = lines \<or> (processed e lines \<noteq> [] \<and> is_close_line e (last (processed e lines)))"
  by (induction lines) auto

lemma close_line:
  assumes "has_content raw" and "json_loads e (strip raw) = Inr cmd"
    and "dict_get cmd (ascii ''action'') (JStr []) = Inr (JStr (ascii ''Close''))"
  shows "handle_command e (JStr (ascii ''Close'')) cmd t st =
           (Inr (JObj [(ascii ''success'', JBool True),
                       (ascii ''data'', JObj [(ascii ''status'', JStr (ascii ''closed''))])]), st) \<and>
         command_loop e t (raw # rest) st =
           (respond e (JObj [(ascii ''success'', JBool True),
                       (ascii ''data'', JObj [(ascii ''status'', JStr (ascii ''closed''))])]) st, rest)"
proof -
  have h: "handle_command e (JStr (ascii ''Close'')) cmd t st =
           (Inr (JObj [(ascii ''success'', JBool True),
                       (ascii ''data'', JObj [(ascii ''status'', JStr (ascii ''closed''))])]), st)"
    by (simp add: handle_command_def ret_def)
  have "is_close_line e raw" using assms by (simp add: is_close_line_def has_content_def)
  moreover have "snd (run_line e t (strip raw) st) =
      respond e (JObj [(ascii ''success'', JBool True),
                       (ascii ''data'', JObj [(ascii ''status'', JStr (ascii ''closed''))])]) st"
    using assms h by (simp add: run_line_def)
  ultimately show ?thesis using h assms(1) by (simp add: command_loop_step)
qed

lemma missing_action:
  assumes "has_content raw" and "json_loads e (strip raw) = Inr (JObj kvs)"
    and "map_of kvs (ascii ''action'') = None"
  shows "command_loop e t (raw # rest) st =
           command_loop e t rest
             (respond e (JObj [(ascii ''success'', JBool False),
                               (ascii ''error'', JStr (ascii ''Unknown action: ''))]) st)"
proof -
  have g: "dict_get (JObj kvs) (ascii ''action'') (JStr []) = Inr (JStr [])"
    using assms by (simp add: dict_get_def)
  have h: "handle_command e (JStr []) (JObj kvs) t st =
           (Inr (JObj [(ascii ''success'', JBool False),
                       (ascii ''error'', JStr (ascii ''Unknown action: ''))]), st)"
    using unknown_action_error [of "[]" e "JObj kvs" t st] by simp
  have "\<not> is_close_line e raw" using assms g by (simp add: is_close_line_def)
  moreover have "snd (run_line e t (strip raw) st) =
      respond e (JObj [(ascii ''success'', JBool False),
                               (ascii ''error'', JStr (ascii ''Unknown action: ''))]) st"
    using assms g h by (simp add: run_line_def)
  ultimately show ?thesis using assms(1) by (simp add: command_loop_step)
qed

lemma cleanup_swallow: "fst (cleanup e st) = Inr ()"
  by (simp add: cleanup_def try_except_def ret_def split: prod.splits sum.splits)

lemma cleanup_calls:
  "calls (snd (cleanup e st)) = calls st @
     (case context_close e (browser st) of
        (Inl ex, b1) \<Rightarrow> [ContextClose]
      | (Inr u, b1) \<Rightarrow>
          (case browser_close e b1 of
             (Inl ex, b2) \<Rightarrow> [ContextClose, BrowserClose]
           | (Inr u, b2) \<Rightarrow> [ContextClose, BrowserClose, PwStop]))"
  by (simp add: cleanup_def try_except_def ret_def and_then_def invoke_def split: prod.splits sum.splits)

section \<open>Facts about the script\<close>

lemma prune_fold_live:
  "live (foldl (\<lambda>s t. s\<lparr>clone := prune t (clone s)\<rparr>) s ts) = live s"
  by (induction ts arbitrary: s) simp_all

lemma prune_fold_clone:
  "clone (foldl (\<lambda>s t. s\<lparr>clone := prune t (clone s)\<rparr>) s ts) = foldl (\<lambda>c t. prune t c) (clone s) ts"
  by (induction ts arbitrary: s) simp_all

lemma readable_script_body:
  "document_body pg = Some b \<Longrightarrow> readable_script pg = (Inr (readable_text b), pg)"
  by (simp add: readable_script_def readable_text_def Let_def prune_fold_live prune_fold_clone
        split: option.splits)

lemma readable_script_reads: "reads_only readable_script"
  unfolding reads_only_def
proof
  fix pg :: "'a page_scheme"
  show "snd (readable_script pg) = pg"
  proof (cases "document_body pg")
    case None
    then show ?thesis by (simp add: readable_script_def)
  next
    case (Some b)
    then show ?thesis by (simp add: readable_script_body)
  qed
qed

text \<open>An action built from reads leaves the browser as it found it.\<close>

lemma kb_ret: "keeps_browser (ret x)" by (simp add: keeps_browser_def ret_def)
lemma kb_lift: "keeps_browser (lift r)" by (simp add: keeps_browser_def lift_def)
lemma kb_invoke: "reads_only f \<Longrightarrow> keeps_browser (invoke c f)"
  by (simp add: keeps_browser_def reads_only_def invoke_def split: prod.splits) (metis snd_conv)
lemma kb_and_then: "keeps_browser m \<Longrightarrow> (\<And>x. keeps_browser (k x)) \<Longrightarrow> keeps_browser (and_then m k)"
  unfolding keeps_browser_def and_then_def
  by (auto split: prod.splits sum.splits) (metis snd_conv)+
lemma kb_try_except: "keeps_browser m \<Longrightarrow> (\<And>x. keeps_browser (h x)) \<Longrightarrow> keeps_browser (try_except m h)"
  unfolding keeps_browser_def try_except_def
  by (auto split: prod.splits sum.splits) (metis snd_conv)+
lemma kb_if: "keeps_browser a \<Longrightarrow> keeps_browser b \<Longrightarrow> keeps_browser (if c then a else b)" by simp
lemma kb_let: "(\<And>x. keeps_browser (f x)) \<Longrightarrow> keeps_browser (Let v f)" by simp

lemma kb_extract_readable:
  "reads_only (page_evaluate e) \<Longrightarrow> reads_only (page_inner_text e (ascii ''body'')) \<Longrightarrow>
   keeps_browser (extract_readable e)"
  unfolding extract_readable_def
  by (intro kb_try_except kb_and_then kb_invoke kb_let kb_if kb_ret)

lemma kb_read_page:
  "reads_only (page_title e) \<Longrightarrow> reads_only (page_url e) \<Longrightarrow> reads_only (page_evaluate e) \<Longrightarrow>
   reads_only (page_inner_text e (ascii ''body'')) \<Longrightarrow>
   keeps_browser (handle_command e (JStr (ascii ''ReadPage'')) cmd t)"
  unfolding read_page_unfold
  by (intro kb_and_then kb_invoke kb_extract_readable kb_ret)

lemma read_page_run:
  assumes "page_title e (browser st) = (Inr title, browser st)"
    and "page_evaluate e (browser st) = (Inr c, browser st)"
    and "page_url e (browser st) = (Inr url, browser st)"
  shows "handle_command e (JStr (ascii ''ReadPage'')) cmd t st =
     (Inr (JObj [(ascii ''success'', JBool True),
                (ascii ''data'', JObj [(ascii ''title'', JStr title),
                                       (ascii ''url'', JStr url),
                                       (ascii ''content'',
                                          JStr (if 50000 < length c
                                                then take 50000 c @ truncation_marker (length c)
                                                else c))])]),
      st\<lparr>calls := calls st @ [Title, Evaluate, Url]\<rparr>)"
  using assms
  by (simp add: read_page_unfold and_then_def invoke_def extract_readable_def try_except_def ret_def Let_def)

section \<open>Facts about the agent SDK\<close>

lemma out_log [simp]: "out (log msg level p) = out p" by (simp add: log_def)

lemma out_run_finally [simp]: "out (snd (run_finally ag p)) = out p"
  by (simp add: run_finally_def split: option.splits sum.splits raised.splits)

lemma run_finally_quiet: "quiet_teardown ag \<Longrightarrow> fst (run_finally ag p) = None"
  by (auto simp: run_finally_def quiet_teardown_def split: option.splits sum.splits raised.splits)

lemma sdk_respond_cases:
  "(\<exists>r. sdk_respond env reply md p = (Inl r, p)) \<or>
   (\<exists>line. sdk_respond env reply md p = (Inr (), p\<lparr>out := out p @ [line @ [10]]\<rparr>))"
proof (cases "obj_truthy env md")
  case (Inl r)
  then show ?thesis by (simp add: sdk_respond_def)
next
  case (Inr has_metadata)
  then show ?thesis
    by (cases "sdk_dumps env (response_dict reply (if has_metadata then Some md else None))")
       (auto simp: sdk_respond_def)
qed

lemma sdk_respond_plain:
  "sdk_dumps env (response_dict reply None) = Inr line \<Longrightarrow>
   sdk_respond env reply PNone p = (Inr (), p\<lparr>out := out p @ [line @ [10]]\<rparr>)"
  by (simp add: sdk_respond_def)

lemma sdk_respond_plain_fails:
  "sdk_dumps env (response_dict reply None) = Inl ex \<Longrightarrow>
   sdk_respond env reply PNone p = (Inl (Ordinary ex), p)"
  by (simp add: sdk_respond_def)

lemma write_result_cases:
  "(\<exists>r. write_result env result p = (Inl r, p)) \<or>
   (\<exists>line. write_result env result p = (Inr (), p\<lparr>out := out p @ [line @ [10]]\<rparr>))"
proof (cases result)
  case (PStr s)
  then show ?thesis using sdk_respond_cases [of env result PNone p] by (simp add: write_result_def)
next
  case (PDict kvs)
  show ?thesis
  proof (cases "sdk_str env result")
    case (Inl r)
    with PDict show ?thesis by (simp add: write_result_def)
  next
    case (Inr shown)
    with PDict show ?thesis
      using sdk_respond_cases [of env "pydict_get kvs (ascii ''text'') (PStr shown)"
          "pydict_get kvs (ascii ''metadata'') PNone" p]
      by (simp add: write_result_def)
  qed
qed (cases "sdk_str env result";
     use sdk_respond_cases [of env _ PNone p] in \<open>simp add: write_result_def\<close>)+

lemma run_try_cases:
  "(\<exists>r. run_try env ag h p = (Inl r, p)) \<or>
   (\<exists>line. run_try env ag h p = (Inr (), p\<lparr>out := out p @ [line @ [10]]\<rparr>))"
  unfolding run_try_def using write_result_cases [of env _ p]
  by (simp split: sum.splits)

lemma run_try_of_call:
  "handler_call env ag h = Some outcome \<Longrightarrow>
   run_try env ag h p = (case outcome of Inl r \<Rightarrow> (Inl r, p) | Inr result \<Rightarrow> write_result env result p)"
  by (auto simp: handler_call_def run_try_def split: sum.splits)

lemma run_registered:
  "on_message ag = Some h \<Longrightarrow> quiet_teardown ag \<Longrightarrow>
   fst (run env ag p) = fst (run_guarded env ag h p) \<and>
   out (snd (run env ag p)) = out (snd (run_guarded env ag h p))"
proof -
  assume reg: "on_message ag = Some h" and quiet: "quiet_teardown ag"
  obtain ending p1 where g: "run_guarded env ag h p = (ending, p1)" by (cases "run_guarded env ag h p")
  obtain p2 where f: "run_finally ag p1 = (None, p2)"
    using run_finally_quiet [OF quiet, of p1] by (cases "run_finally ag p1") simp
  have "out p2 = out p1" using out_run_finally [of ag p1] f by simp
  with reg g f show ?thesis by (simp add: run_def)
qed

lemma run_out:
  "on_message ag = Some h \<Longrightarrow> out (snd (run env ag p)) = out (snd (run_guarded env ag h p))"
proof -
  assume reg: "on_message ag = Some h"
  obtain ending p1 where g: "run_guarded env ag h p = (ending, p1)" by (cases "run_guarded env ag h p")
  obtain r p2 where f: "run_finally ag p1 = (r, p2)" by (cases "run_finally ag p1")
  have "out p2 = out p1" using out_run_finally [of ag p1] f by simp
  with reg g f show ?thesis by (simp add: run_def split: option.splits)
qed

lemma run_guarded_returns:
  "run_try env ag h p = (Inr (), p1) \<Longrightarrow> run_guarded env ag h p = (Returns, p1)"
  by (simp add: run_guarded_def)

lemma run_guarded_escapes:
  "run_try env ag h p = (Inl r, p1) \<Longrightarrow> \<forall>ex. r \<noteq> Ordinary ex \<Longrightarrow>
   run_guarded env ag h p = (Raised r, p1)"
  by (cases r) (simp_all add: run_guarded_def)

lemma run_guarded_caught:
  "run_try env ag h p = (Inl (Ordinary ex), p) \<Longrightarrow>
   sdk_dumps env (response_dict (PStr (ascii ''Error: '' @ message ex)) None) = Inr line \<Longrightarrow>
   fst (run_guarded env ag h p) = Raised (Exit 1) \<and>
   out (snd (run_guarded env ag h p)) = out p @ [line @ [10]]"
  by (simp add: run_guarded_def sdk_respond_plain)

lemma run_guarded_caught_nonzero:
  "run_try env ag h p = (Inl (Ordinary ex), p) \<Longrightarrow> exits_nonzero (fst (run_guarded env ag h p))"
  by (cases "sdk_dumps env (response_dict (PStr (ascii ''Error: '' @ message ex)) None)")
     (simp_all add: run_guarded_def sdk_respond_plain sdk_respond_plain_fails)

section \<open>The claims\<close>

text \<open>
  C4. For every command whose action string \<open>X\<close> is not one of Navigate, Click, Type,
  Screenshot, ReadPage, Close, the dispatcher returns the response
  \<open>{success: false, error: "Unknown action: X"}\<close>; it calls no browser operation and
  leaves the session as it was: the state returned, with its record of driver calls, is
  the state given.
\<close>

theorem unknown_action_response:
  assumes "x \<notin> {ascii ''Navigate'', ascii ''Click'', ascii ''Type'', ascii ''Screenshot'',
                 ascii ''ReadPage'', ascii ''Close''}"
  shows "handle_command e (JStr x) cmd timeout_ms st =
           (Inr (JObj [(ascii ''success'', JBool False),
                       (ascii ''error'', JStr (ascii ''Unknown action: '' @ x))]), st)"
  using assms by (rule unknown_action_error)

theorem unknown_action_response_witness:
  "ascii ''Scroll'' \<notin> {ascii ''Navigate'', ascii ''Click'', ascii ''Type'', ascii ''Screenshot'',
                 ascii ''ReadPage'', ascii ''Close''} \<and>
   handle_command demo_env (JStr (ascii ''Scroll'')) (JObj []) 30000 demo_bridge =
     (Inr (JObj [(ascii ''success'', JBool False),
                 (ascii ''error'', JStr (ascii ''Unknown action: Scroll''))]), demo_bridge)"
  using unknown_action_response [of "ascii ''Scroll''" demo_env "JObj []" 30000 demo_bridge]
  by (simp add: ascii_append [symmetric])

text \<open>
  C6. For every Navigate command whose object has no \<open>url\<close> field, the dispatcher returns
  \<open>{success: false, error: "Missing 'url' parameter"}\<close> and makes no call to the browser
  driver: the state, with its record of driver calls, is returned as it was given.
\<close>

theorem navigate_without_url:
  assumes "map_of kvs (ascii ''url'') = None"
  shows "handle_command e (JStr (ascii ''Navigate'')) (JObj kvs) timeout_ms st =
           (Inr (JObj [(ascii ''success'', JBool False),
                       (ascii ''error'', JStr (ascii ''Missing 'url' parameter''))]), st)"
  using assms by (rule navigate_missing_url)

theorem navigate_without_url_witness:
  "map_of [(ascii ''action'', JStr (ascii ''Navigate''))] (ascii ''url'') = None \<and>
   handle_command demo_env (JStr (ascii ''Navigate'')) (JObj [(ascii ''action'', JStr (ascii ''Navigate''))])
       30000 demo_bridge =
     (Inr (JObj [(ascii ''success'', JBool False),
                 (ascii ''error'', JStr (ascii ''Missing 'url' parameter''))]), demo_bridge)"
  using navigate_without_url [of "[(ascii ''action'', JStr (ascii ''Navigate''))]" demo_env 30000 demo_bridge]
  by simp

text \<open>
  C5. When a line with content parses to a command whose action is Close, the
  dispatcher answers \<open>{success: true, data: {status: "closed"}}\<close> without touching the
  session, the loop writes exactly that one response and stops: the lines after the
  Close line are returned unread, and nothing is written for them.
\<close>

theorem close_stops_the_loop:
  assumes "has_content raw" and "json_loads e (strip raw) = Inr cmd"
    and "dict_get cmd (ascii ''action'') (JStr []) = Inr (JStr (ascii ''Close''))"
  shows "handle_command e (JStr (ascii ''Close'')) cmd timeout_ms st =
           (Inr (JObj [(ascii ''success'', JBool True),
                       (ascii ''data'', JObj [(ascii ''status'', JStr (ascii ''closed''))])]), st) \<and>
         command_loop e timeout_ms (raw # rest) st =
           (st\<lparr>stdout := stdout st @
              [json_dumps e (JObj [(ascii ''success'', JBool True),
                 (ascii ''data'', JObj [(ascii ''status'', JStr (ascii ''closed''))])]) @ [10]]\<rparr>, rest)"
  using close_line [OF assms, of timeout_ms st rest] by (simp add: respond_def)

theorem close_stops_the_loop_witness:
  "has_content (close_line_text @ [10]) \<and>
   json_loads demo_env (strip (close_line_text @ [10])) = Inr (JObj [(ascii ''action'', JStr (ascii ''Close''))]) \<and>
   dict_get (JObj [(ascii ''action'', JStr (ascii ''Close''))]) (ascii ''action'') (JStr []) =
     Inr (JStr (ascii ''Close'')) \<and>
   command_loop demo_env 30000 [close_line_text @ [10], read_page_line_text @ [10]] demo_bridge =
     (demo_bridge\<lparr>stdout := [json_dumps demo_env (JObj [(ascii ''success'', JBool True),
                 (ascii ''data'', JObj [(ascii ''status'', JStr (ascii ''closed''))])]) @ [10]]\<rparr>,
      [read_page_line_text @ [10]])"
proof -
  have s: "strip (close_line_text @ [10]) = close_line_text"
    by (simp add: strip_def close_line_text_def ascii_def isspace_def)
  have a: "has_content (close_line_text @ [10])"
    by (simp add: has_content_def s) (simp add: close_line_text_def)
  have b: "json_loads demo_env (strip (close_line_text @ [10])) =
      Inr (JObj [(ascii ''action'', JStr (ascii ''Close''))])"
    by (simp only: s) (simp add: demo_env_def demo_loads_def close_line_text_def)
  have c: "dict_get (JObj [(ascii ''action'', JStr (ascii ''Close''))]) (ascii ''action'') (JStr []) =
     Inr (JStr (ascii ''Close''))"
    by (simp add: dict_get_def)
  from close_stops_the_loop [OF a b c, of 30000 demo_bridge "[read_page_line_text @ [10]]"] a b c
  show ?thesis by (simp add: demo_bridge_def)
qed

text \<open>
  C9. A line with content that parses to a JSON object without an \<open>action\<close> field is
  dispatched with the empty string as its action: the bridge writes
  \<open>{success: false, error: "Unknown action: "}\<close>, the generic unknown-action error with an
  empty name, changes nothing else, and the loop goes on with the next line.
\<close>

theorem missing_action_is_unknown_action:
  assumes "has_content raw" and "json_loads e (strip raw) = Inr (JObj kvs)"
    and "map_of kvs (ascii ''action'') = None"
  shows "command_loop e timeout_ms (raw # rest) st =
           command_loop e timeout_ms rest
             (st\<lparr>stdout := stdout st @
                [json_dumps e (JObj [(ascii ''success'', JBool False),
                                     (ascii ''error'', JStr (ascii ''Unknown action: ''))]) @ [10]]\<rparr>)"
  using missing_action [OF assms, of timeout_ms rest st] by (simp add: respond_def)

theorem missing_action_is_unknown_action_witness:
  "has_content no_action_line_text \<and>
   json_loads demo_env (strip no_action_line_text) = Inr (JObj [(ascii ''url'', JStr (ascii ''about:blank''))]) \<and>
   map_of [(ascii ''url'', JStr (ascii ''about:blank''))] (ascii ''action'') = None \<and>
   command_loop demo_env 30000 [no_action_line_text] demo_bridge =
     (demo_bridge\<lparr>stdout := [json_dumps demo_env (JObj [(ascii ''success'', JBool False),
                                     (ascii ''error'', JStr (ascii ''Unknown action: ''))]) @ [10]]\<rparr>, [])"
proof -
  have s: "strip no_action_line_text = no_action_line_text"
    by (simp add: strip_def no_action_line_text_def ascii_def isspace_def)
  have a: "has_content no_action_line_text"
    by (simp add: has_content_def s) (simp add: no_action_line_text_def)
  have b: "json_loads demo_env (strip no_action_line_text) =
      Inr (JObj [(ascii ''url'', JStr (ascii ''about:blank''))])"
    by (simp only: s) (simp add: demo_env_def demo_loads_def no_action_line_text_def)
  have c: "map_of [(ascii ''url'', JStr (ascii ''about:blank''))] (ascii ''action'') = None"
    by simp
  from missing_action_is_unknown_action [OF a b c, of 30000 "[]" demo_bridge] a b c
  show ?thesis by (simp add: demo_bridge_def)
qed

text \<open>
  C10. For Navigate, Click and Type, a required field (\<open>url\<close>, \<open>selector\<close>, \<open>text\<close>)
  that is present but is the empty string is treated like an absent one: the dispatcher
  returns the missing-parameter error, the same response as for the command without
  the field, and calls no browser operation (the state is returned as given). For
  \<open>text\<close> the error names \<open>text\<close> when the selector is usable, and \<open>selector\<close>,
  which is checked first, when it is not.
\<close>

theorem empty_required_field_as_absent:
  assumes "map_of kvs field = Some (JStr [])"
  shows
   "(field = ascii ''url'' \<longrightarrow>
       handle_command e (JStr (ascii ''Navigate'')) (JObj kvs) t st = (Inr (missing_parameter ''url''), st) \<and>
       handle_command e (JStr (ascii ''Navigate'')) (JObj (without_key field kvs)) t st =
         (Inr (missing_parameter ''url''), st)) \<and>
    (field = ascii ''selector'' \<longrightarrow>
       handle_command e (JStr (ascii ''Click'')) (JObj kvs) t st = (Inr (missing_parameter ''selector''), st) \<and>
       handle_command e (JStr (ascii ''Click'')) (JObj (without_key field kvs)) t st =
         (Inr (missing_parameter ''selector''), st) \<and>
       handle_command e (JStr (ascii ''Type'')) (JObj kvs) t st = (Inr (missing_parameter ''selector''), st) \<and>
       handle_command e (JStr (ascii ''Type'')) (JObj (without_key field kvs)) t st =
         (Inr (missing_parameter ''selector''), st)) \<and>
    (field = ascii ''text'' \<longrightarrow>
       handle_command e (JStr (ascii ''Type'')) (JObj kvs) t st =
         (Inr (if truthy (case map_of kvs (ascii ''selector'') of Some v \<Rightarrow> v | None \<Rightarrow> JStr [])
               then missing_parameter ''text'' else missing_parameter ''selector''), st) \<and>
       handle_command e (JStr (ascii ''Type'')) (JObj (without_key field kvs)) t st =
         handle_command e (JStr (ascii ''Type'')) (JObj kvs) t st)"
proof (intro conjI impI)
  assume f: "field = ascii ''url''"
  show "handle_command e (JStr (ascii ''Navigate'')) (JObj kvs) t st = (Inr (missing_parameter ''url''), st)"
    using assms f by (intro navigate_falsy) simp
  show "handle_command e (JStr (ascii ''Navigate'')) (JObj (without_key field kvs)) t st =
         (Inr (missing_parameter ''url''), st)"
    using f by (intro navigate_falsy) (simp add: map_of_without_key)
next
  assume f: "field = ascii ''selector''"
  show "handle_command e (JStr (ascii ''Click'')) (JObj kvs) t st = (Inr (missing_parameter ''selector''), st)"
    using assms f by (intro click_falsy) simp
  show "handle_command e (JStr (ascii ''Click'')) (JObj (without_key field kvs)) t st =
         (Inr (missing_parameter ''selector''), st)"
    using f by (intro click_falsy) (simp add: map_of_without_key)
  show "handle_command e (JStr (ascii ''Type'')) (JObj kvs) t st = (Inr (missing_parameter ''selector''), st)"
    using assms f by (intro type_falsy_selector) simp
  show "handle_command e (JStr (ascii ''Type'')) (JObj (without_key field kvs)) t st =
         (Inr (missing_parameter ''selector''), st)"
    using f by (intro type_falsy_selector) (simp add: map_of_without_key)
next
  assume f: "field = ascii ''text''"
  let ?sel = "case map_of kvs (ascii ''selector'') of Some v \<Rightarrow> v | None \<Rightarrow> JStr []"
  have s: "map_of (without_key field kvs) (ascii ''selector'') = map_of kvs (ascii ''selector'')"
    using f by (simp add: map_of_without_key)
  have t1: "\<not> truthy (case map_of kvs (ascii ''text'') of Some v \<Rightarrow> v | None \<Rightarrow> JStr [])"
    using assms f by simp
  have t2: "\<not> truthy (case map_of (without_key field kvs) (ascii ''text'') of Some v \<Rightarrow> v | None \<Rightarrow> JStr [])"
    using f by (simp add: map_of_without_key)
  show a: "handle_command e (JStr (ascii ''Type'')) (JObj kvs) t st =
         (Inr (if truthy ?sel then missing_parameter ''text'' else missing_parameter ''selector''), st)"
    using type_falsy_text [of kvs e t st] type_falsy_selector [of kvs e t st] t1
    by (cases "truthy ?sel") simp_all
  show "handle_command e (JStr (ascii ''Type'')) (JObj (without_key field kvs)) t st =
         handle_command e (JStr (ascii ''Type'')) (JObj kvs) t st"
    using type_falsy_text [of "without_key field kvs" e t st]
      type_falsy_selector [of "without_key field kvs" e t st] t2 s a
    by (cases "truthy ?sel") simp_all
qed

theorem empty_required_field_as_absent_witness:
  "map_of [(ascii ''url'', JStr [])] (ascii ''url'') = Some (JStr []) \<and>
   handle_command demo_env (JStr (ascii ''Navigate'')) (JObj [(ascii ''url'', JStr [])]) 30000 demo_bridge =
     (Inr (JObj [(ascii ''success'', JBool False),
                 (ascii ''error'', JStr (ascii ''Missing 'url' parameter''))]), demo_bridge) \<and>
   map_of [(ascii ''selector'', JStr [])] (ascii ''selector'') = Some (JStr []) \<and>
   handle_command demo_env (JStr (ascii ''Click'')) (JObj [(ascii ''selector'', JStr [])]) 30000 demo_bridge =
     (Inr (JObj [(ascii ''success'', JBool False),
                 (ascii ''error'', JStr (ascii ''Missing 'selector' parameter''))]), demo_bridge) \<and>
   map_of [(ascii ''selector'', JStr (ascii ''#q'')), (ascii ''text'', JStr [])] (ascii ''text'') = Some (JStr []) \<and>
   handle_command demo_env (JStr (ascii ''Type''))
       (JObj [(ascii ''selector'', JStr (ascii ''#q'')), (ascii ''text'', JStr [])]) 30000 demo_bridge =
     (Inr (JObj [(ascii ''success'', JBool False),
                 (ascii ''error'', JStr (ascii ''Missing 'text' parameter''))]), demo_bridge)"
  using empty_required_field_as_absent [of "[(ascii ''url'', JStr [])]" "ascii ''url''" demo_env 30000 demo_bridge]
    empty_required_field_as_absent [of "[(ascii ''selector'', JStr [])]" "ascii ''selector''" demo_env 30000 demo_bridge]
    empty_required_field_as_absent [of "[(ascii ''selector'', JStr (ascii ''#q'')), (ascii ''text'', JStr [])]"
      "ascii ''text''" demo_env 30000 demo_bridge]
  by (simp add: missing_parameter_def ascii_def)

text \<open>
  C1, as the code has it. The three release steps are called in the order
  context-close, browser-close, driver-stop, inside one \<open>try\<close> block: a step is
  attempted only when the steps before it succeeded, so the calls made are the steps up
  to and including the first one that fails. No failure of a release step leaves the
  teardown.
\<close>

theorem teardown_order_and_swallow:
  "fst (cleanup e st) = Inr () \<and>
   calls (snd (cleanup e st)) = calls st @
     (case context_close e (browser st) of
        (Inl ex, b1) \<Rightarrow> [ContextClose]
      | (Inr u, b1) \<Rightarrow>
          (case browser_close e b1 of
             (Inl ex, b2) \<Rightarrow> [ContextClose, BrowserClose]
           | (Inr u, b2) \<Rightarrow> [ContextClose, BrowserClose, PwStop]))"
  by (simp add: cleanup_swallow cleanup_calls)

theorem teardown_order_and_swallow_witness:
  "fst (cleanup demo_env demo_bridge) = Inr () \<and>
   calls (snd (cleanup demo_env demo_bridge)) = [ContextClose, BrowserClose, PwStop] \<and>
   fst (cleanup broken_close_env demo_bridge) = Inr () \<and>
   calls (snd (cleanup broken_close_env demo_bridge)) = [ContextClose]"
  using teardown_order_and_swallow [of demo_env demo_bridge]
    teardown_order_and_swallow [of broken_close_env demo_bridge]
  by (simp add: demo_env_def broken_close_env_def demo_bridge_def succeed_def fail_def)

text \<open>
  C1, as the claim states it, fails: when closing the context raises, neither closing
  the browser nor stopping the driver is attempted.
\<close>

theorem teardown_failure_skips_later_steps:
  "fst (context_close broken_close_env (browser demo_bridge)) =
     Inl (Exn (ascii ''Error'') (ascii ''Target closed'')) \<and>
   BrowserClose \<notin> set (calls (snd (cleanup broken_close_env demo_bridge))) \<and>
   PwStop \<notin> set (calls (snd (cleanup broken_close_env demo_bridge)))"
  by (simp add: cleanup_calls broken_close_env_def demo_env_def demo_bridge_def fail_def)

text \<open>
  C2. For every extracted string (the result of the structured walk or, when that
  raised, of the plain-text fallback): if it is longer than 50,000 characters, the
  content returned is its first 50,000 characters followed by the truncation marker,
  which states the original length in decimal; if it has 50,000 characters or fewer, it
  is returned unmodified, with no marker.
\<close>

theorem extract_readable_truncation:
  assumes "extracted e st content"
  shows "(50000 < length content \<longrightarrow>
            fst (extract_readable e st) =
              Inr (take 50000 content @ [10, 10] @ ascii ''[Truncated '' @ [8212] @ ascii '' '' @
                   str_nat (length content) @ ascii '' total chars]'') \<and>
            read_nat (str_nat (length content)) = length content) \<and>
         (length content \<le> 50000 \<longrightarrow> fst (extract_readable e st) = Inr content)"
  using assms
  by (auto simp: extracted_def extract_cases truncation_marker_def read_nat_str_nat
        split: prod.splits sum.splits)

theorem extract_readable_truncation_witness:
  "extracted long_page_env demo_bridge (replicate 50001 97) \<and>
   50000 < length (replicate 50001 (97::nat)) \<and>
   fst (extract_readable long_page_env demo_bridge) =
     Inr (replicate 50000 97 @ [10, 10] @ ascii ''[Truncated '' @ [8212] @ ascii '' 50001 total chars]'') \<and>
   extracted demo_env demo_bridge (ascii ''Hello'') \<and>
   length (ascii ''Hello'') \<le> 50000 \<and>
   fst (extract_readable demo_env demo_bridge) = Inr (ascii ''Hello'')"
proof -
  have a: "extracted long_page_env demo_bridge (replicate 50001 97)"
    by (simp add: extracted_def long_page_env_def demo_env_def demo_bridge_def succeed_def)
  have b: "extracted demo_env demo_bridge (ascii ''Hello'')"
    by (simp add: extracted_def demo_env_def demo_bridge_def succeed_def)
  have c: "str_nat 50001 = ascii ''50001''"
    by (simp add: str_nat.simps ascii_def)
  from extract_readable_truncation [OF a] extract_readable_truncation [OF b] a b c
  show ?thesis by (simp add: ascii_def)
qed

text \<open>
  C3. For every sequence of input lines: the loop reads the lines up to and including
  the first Close line, or all of them when there is none; it appends to standard
  output exactly one line per line with content that it read, so \<open>N\<close> such lines
  yield \<open>N\<close> response lines; a blank line produces nothing; a line that is not JSON
  produces the one response \<open>{success: false, error: ...}\<close> and the loop goes on with
  the next line.
\<close>

theorem one_response_per_content_line:
  "(\<exists>outs. stdout (fst (command_loop e t lines st)) = stdout st @ outs \<and>
           length outs = length (filter has_content (processed e lines)) \<and>
           (\<forall>l \<in> set outs. \<exists>data. l = json_dumps e data @ [10])) \<and>
   lines = processed e lines @ snd (command_loop e t lines st) \<and>
   (processed e lines = lines \<or>
    (processed e lines \<noteq> [] \<and> is_close_line e (last (processed e lines)))) \<and>
   (\<not> has_content blank \<longrightarrow> command_loop e t (blank # rest) st = command_loop e t rest st) \<and>
   (has_content bad \<and> json_loads e (strip bad) = Inl ex \<longrightarrow>
      command_loop e t (bad # rest) st =
        command_loop e t rest
          (st\<lparr>stdout := stdout st @
             [json_dumps e (JObj [(ascii ''success'', JBool False),
                                  (ascii ''error'', JStr (kind ex @ ascii '': '' @ message ex))]) @ [10]]\<rparr>))"
proof (intro conjI impI)
  show "\<exists>outs. stdout (fst (command_loop e t lines st)) = stdout st @ outs \<and>
           length outs = length (filter has_content (processed e lines)) \<and>
           (\<forall>l \<in> set outs. \<exists>data. l = json_dumps e data @ [10])"
    by (rule command_loop_stdout)
  have "take (length (processed e lines)) lines = processed e lines"
    by (induction lines) auto
  then show "lines = processed e lines @ snd (command_loop e t lines st)"
    by (metis append_take_drop_id command_loop_unread)
  show "processed e lines = lines \<or>
    (processed e lines \<noteq> [] \<and> is_close_line e (last (processed e lines)))"
    by (rule processed_stop)
next
  assume "\<not> has_content blank"
  then show "command_loop e t (blank # rest) st = command_loop e t rest st"
    by (simp add: command_loop_step)
next
  assume b: "has_content bad \<and> json_loads e (strip bad) = Inl ex"
  then have "\<not> is_close_line e bad" by (simp add: is_close_line_def)
  with b show "command_loop e t (bad # rest) st =
        command_loop e t rest
          (st\<lparr>stdout := stdout st @
             [json_dumps e (JObj [(ascii ''success'', JBool False),
                                  (ascii ''error'', JStr (kind ex @ ascii '': '' @ message ex))]) @ [10]]\<rparr>)"
    by (simp add: command_loop_step run_line_def respond_def error_response_def)
qed

theorem one_response_per_content_line_witness:
  "\<not> has_content (ascii '' '') \<and>
   has_content (ascii ''not json'') \<and>
   json_loads demo_env (strip (ascii ''not json'')) =
     Inl (Exn (ascii ''JSONDecodeError'') (ascii ''Expecting value: line 1 column 1 (char 0)'')) \<and>
   processed demo_env demo_lines = [ascii ''not json'', ascii '' '', close_line_text @ [10]] \<and>
   length (stdout (fst (command_loop demo_env 30000 demo_lines demo_bridge))) = 2 \<and>
   snd (command_loop demo_env 30000 demo_lines demo_bridge) = [read_page_line_text @ [10]]"
proof -
  have s: "strip (ascii '' '') = []" "strip (ascii ''not json'') = ascii ''not json''"
    by (simp_all add: strip_def ascii_def isspace_def)
  have a: "\<not> has_content (ascii '' '')" "has_content (ascii ''not json'')"
    by (simp_all add: has_content_def s)
  have b: "json_loads demo_env (strip (ascii ''not json'')) =
     Inl (Exn (ascii ''JSONDecodeError'') (ascii ''Expecting value: line 1 column 1 (char 0)''))"
    by (simp only: s) (simp add: demo_env_def demo_loads_def ascii_def)
  have p: "processed demo_env demo_lines = [ascii ''not json'', ascii '' '', close_line_text @ [10]]"
    by (simp add: demo_lines_def is_close_line_def strip_def isspace_def demo_env_def demo_loads_def
        close_line_text_def read_page_line_text_def ascii_def dict_get_def)
  have f: "filter has_content [ascii ''not json'', ascii '' '', close_line_text @ [10]] =
      [ascii ''not json'', close_line_text @ [10]]"
    by (simp add: has_content_def s) (simp add: strip_def close_line_text_def ascii_def isspace_def)
  from one_response_per_content_line [of demo_env 30000 demo_lines demo_bridge "ascii '' ''"
      "[]" "ascii ''not json''"
      "Exn (ascii ''JSONDecodeError'') (ascii ''Expecting value: line 1 column 1 (char 0)'')"]
  have "\<exists>outs. stdout (fst (command_loop demo_env 30000 demo_lines demo_bridge)) = outs \<and> length outs = 2"
    and "demo_lines = processed demo_env demo_lines @ snd (command_loop demo_env 30000 demo_lines demo_bridge)"
    by (simp_all only: p f) (simp_all add: demo_bridge_def)
  then show ?thesis using a b p by (auto simp: demo_lines_def)
qed

text \<open>
  C7. Take a driver whose \<open>evaluate\<close> runs the extraction script of the repository on
  the document of the page, and whose title, URL and inner-text calls are reads. Then a
  ReadPage command leaves the page as it found it (the script removes elements from its
  own copy of the body only), so two consecutive ReadPage commands return identical
  responses, hence identical content; and the content returned for a document with a
  body is the text the script computes from that body, cut at 50,000 characters: a
  function of the page, with nothing kept from one call to the next, each of the two
  commands asking the driver again for the title, the evaluation and the URL.
\<close>

theorem read_page_idempotent:
  assumes "page_evaluate e = readable_script"
    and "reads_only (page_title e)" and "reads_only (page_url e)"
    and "reads_only (page_inner_text e (ascii ''body''))"
    and "handle_command e (JStr (ascii ''ReadPage'')) cmd t st = (r1, st1)"
    and "handle_command e (JStr (ascii ''ReadPage'')) cmd' t' st1 = (r2, st2)"
  shows "browser st1 = browser st \<and> browser st2 = browser st \<and> r2 = r1 \<and>
         (\<forall>b title url.
            document_body (browser st) = Some b \<and> fst (page_title e (browser st)) = Inr title \<and>
            fst (page_url e (browser st)) = Inr url \<longrightarrow>
            r1 = Inr (JObj [(ascii ''success'', JBool True),
                            (ascii ''data'', JObj [(ascii ''title'', JStr title),
                                                   (ascii ''url'', JStr url),
                                                   (ascii ''content'',
                                                      JStr (if 50000 < length (readable_text b)
                                                            then take 50000 (readable_text b) @
                                                                 truncation_marker (length (readable_text b))
                                                            else readable_text b))])]) \<and>
            calls st1 = calls st @ [Title, Evaluate, Url] \<and>
            calls st2 = calls st1 @ [Title, Evaluate, Url])"
proof -
  have script_reads: "reads_only (page_evaluate e)"
    using assms(1) readable_script_reads by simp
  have kept: "keeps_browser (handle_command e (JStr (ascii ''ReadPage'')) c u)" for c u
    using assms(2-4) script_reads by (intro kb_read_page)
  have unchanged: "browser st1 = browser st"
    using kept [of cmd t] assms(5) by (auto simp: keeps_browser_def dest: spec [of _ st])
  have unchanged2: "browser st2 = browser st"
    using kept [of cmd' t'] assms(6) unchanged by (auto simp: keeps_browser_def dest: spec [of _ st1])
  have "fst (handle_command e (JStr (ascii ''ReadPage'')) cmd' t' st1) = r1"
    using assms(5) unchanged by (rule read_page_twice)
  with assms(6) have same: "r2 = r1" by simp
  have pinned: "r1 = Inr (JObj [(ascii ''success'', JBool True),
                            (ascii ''data'', JObj [(ascii ''title'', JStr title),
                                                   (ascii ''url'', JStr url),
                                                   (ascii ''content'',
                                                      JStr (if 50000 < length (readable_text b)
                                                            then take 50000 (readable_text b) @
                                                                 truncation_marker (length (readable_text b))
                                                            else readable_text b))])]) \<and>
            calls st1 = calls st @ [Title, Evaluate, Url] \<and>
            calls st2 = calls st1 @ [Title, Evaluate, Url]"
    if page: "document_body (browser st) = Some b \<and> fst (page_title e (browser st)) = Inr title \<and>
            fst (page_url e (browser st)) = Inr url" for b title url
  proof -
    have a: "page_title e (browser st) = (Inr title, browser st)"
      using page assms(2) by (simp add: reads_only_def prod_eq_iff)
    have c: "page_url e (browser st) = (Inr url, browser st)"
      using page assms(3) by (simp add: reads_only_def prod_eq_iff)
    have b: "page_evaluate e (browser st) = (Inr (readable_text b), browser st)"
      using page assms(1) by (simp add: readable_script_body)
    from read_page_run [OF a b c, of cmd t] assms(5)
    have one: "r1 = Inr (JObj [(ascii ''success'', JBool True),
                            (ascii ''data'', JObj [(ascii ''title'', JStr title),
                                                   (ascii ''url'', JStr url),
                                                   (ascii ''content'',
                                                      JStr (if 50000 < length (readable_text b)
                                                            then take 50000 (readable_text b) @
                                                                 truncation_marker (length (readable_text b))
                                                            else readable_text b))])])"
      and calls1: "calls st1 = calls st @ [Title, Evaluate, Url]"
      by auto
    from read_page_run [of e st1 title "readable_text b" url cmd' t'] a b c unchanged assms(6)
    have "calls st2 = calls st1 @ [Title, Evaluate, Url]" by auto
    with one calls1 show ?thesis by simp
  qed
  from unchanged unchanged2 same pinned show ?thesis by blast
qed

theorem read_page_idempotent_witness:
  "page_evaluate page_env = readable_script \<and>
   reads_only (page_title page_env) \<and> reads_only (page_url page_env) \<and>
   reads_only (page_inner_text page_env (ascii ''body'')) \<and>
   readable_text demo_body = ascii ''## Title'' @ [10] @ ascii ''Hello'' \<and>
   handle_command page_env (JStr (ascii ''ReadPage'')) (JObj []) 30000 page_bridge =
     (Inr (JObj [(ascii ''success'', JBool True),
                 (ascii ''data'', JObj [(ascii ''title'', JStr (ascii ''Example'')),
                                        (ascii ''url'', JStr (ascii ''about:blank'')),
                                        (ascii ''content'', JStr (ascii ''## Title'' @ [10] @ ascii ''Hello''))])]),
      page_bridge\<lparr>calls := [Title, Evaluate, Url]\<rparr>) \<and>
   handle_command page_env (JStr (ascii ''ReadPage'')) (JObj []) 30000 (page_bridge\<lparr>calls := [Title, Evaluate, Url]\<rparr>) =
     (Inr (JObj [(ascii ''success'', JBool True),
                 (ascii ''data'', JObj [(ascii ''title'', JStr (ascii ''Example'')),
                                        (ascii ''url'', JStr (ascii ''about:blank'')),
                                        (ascii ''content'', JStr (ascii ''## Title'' @ [10] @ ascii ''Hello''))])]),
      page_bridge\<lparr>calls := [Title, Evaluate, Url, Title, Evaluate, Url]\<rparr>)"
proof -
  have s: "page_evaluate page_env = readable_script" by (simp add: page_env_def)
  have r: "reads_only (page_title page_env)" "reads_only (page_url page_env)"
      "reads_only (page_inner_text page_env (ascii ''body''))"
    by (simp_all add: page_env_def reads_only_def reading_def)
  have content: "readable_text demo_body = ascii ''## Title'' @ [10] @ ascii ''Hello''"
    by (simp add: readable_text_def demo_body_def element_def remove_tags_def matches_main_def
        js_trim_def js_space_def collapse_def ascii_def)
  have ev: "page_evaluate page_env demo_page = (Inr (ascii ''## Title'' @ [10] @ ascii ''Hello''), demo_page)"
    using readable_script_body [of demo_page demo_body] by (simp add: s content demo_page_def)
  have t: "page_title page_env demo_page = (Inr (ascii ''Example''), demo_page)"
    and u: "page_url page_env demo_page = (Inr (ascii ''about:blank''), demo_page)"
    by (simp_all add: page_env_def reading_def)
  have first: "handle_command page_env (JStr (ascii ''ReadPage'')) (JObj []) 30000 page_bridge =
     (Inr (JObj [(ascii ''success'', JBool True),
                 (ascii ''data'', JObj [(ascii ''title'', JStr (ascii ''Example'')),
                                        (ascii ''url'', JStr (ascii ''about:blank'')),
                                        (ascii ''content'', JStr (ascii ''## Title'' @ [10] @ ascii ''Hello''))])]),
      page_bridge\<lparr>calls := [Title, Evaluate, Url]\<rparr>)"
    using read_page_run [of page_env page_bridge "ascii ''Example''" "ascii ''## Title'' @ [10] @ ascii ''Hello''"
        "ascii ''about:blank''" "JObj []" 30000] t ev u
    by (simp add: page_bridge_def)
  obtain r2 st2 where second: "handle_command page_env (JStr (ascii ''ReadPage'')) (JObj []) 30000
      (page_bridge\<lparr>calls := [Title, Evaluate, Url]\<rparr>) = (r2, st2)"
    by (cases "handle_command page_env (JStr (ascii ''ReadPage'')) (JObj []) 30000
      (page_bridge\<lparr>calls := [Title, Evaluate, Url]\<rparr>)")
  have calls2: "st2 = page_bridge\<lparr>calls := [Title, Evaluate, Url, Title, Evaluate, Url]\<rparr>"
    using read_page_run [of page_env "page_bridge\<lparr>calls := [Title, Evaluate, Url]\<rparr>" "ascii ''Example''"
        "ascii ''## Title'' @ [10] @ ascii ''Hello''" "ascii ''about:blank''" "JObj []" 30000] t ev u second
    by (simp add: page_bridge_def)
  from read_page_idempotent [OF s r first second] second calls2 s r content first
  show ?thesis by simp
qed

text \<open>
  C8, as the code has it. \<open>Agent.run\<close> ends the process with status 1, writing nothing
  to standard output, when no message handler is registered. When the handler raises
  an exception that \<open>except Exception\<close> catches, \<open>run\<close> ends the process with a
  non-zero status, and, the error response being serialisable, with status 1 after
  writing the one response \<open>{"type": "response", "text": "Error: <message>"}\<close>. When the
  handler returns and the response serialises, \<open>run\<close> writes exactly one response object
  and returns: the string itself for a string; the \<open>"text"\<close> entry (by default
  \<open>str(result)\<close>) and the truthy \<open>"metadata"\<close> entry for a dict; \<open>str(result)\<close>
  otherwise. An exception outside \<open>Exception\<close> raised by the handler is not caught:
  nothing is written and it leaves \<open>run\<close> as it is. The same holds of whatever is
  raised in the \<open>try\<close> block: an \<open>Exception\<close> gives the error response and status 1,
  anything else leaves \<open>run\<close> with nothing written. Whenever a handler is registered and
  nothing outside \<open>Exception\<close> is raised in the \<open>try\<close> block, exactly one response line
  is written. The exit statuses are those of a teardown that raises nothing outside
  \<open>Exception\<close>.
\<close>

theorem agent_run_outcomes:
  "(on_message ag = None \<longrightarrow>
      run env ag p = (Raised (Exit 1), log (ascii ''No message handler registered'') (ascii ''error'') p) \<and>
      exits_nonzero (fst (run env ag p)) \<and> out (snd (run env ag p)) = out p) \<and>
   (\<forall>h ex. on_message ag = Some h \<and> handler_call env ag h = Some (Inl (Ordinary ex)) \<and>
        quiet_teardown ag \<longrightarrow>
      exits_nonzero (fst (run env ag p)) \<and>
      (\<forall>line. sdk_dumps env (response_dict (PStr (ascii ''Error: '' @ message ex)) None) = Inr line \<longrightarrow>
         fst (run env ag p) = Raised (Exit 1) \<and> out (snd (run env ag p)) = out p @ [line @ [10]])) \<and>
   (\<forall>h s line. on_message ag = Some h \<and> handler_call env ag h = Some (Inr (PStr s)) \<and>
        sdk_dumps env (response_dict (PStr s) None) = Inr line \<and> quiet_teardown ag \<longrightarrow>
      fst (run env ag p) = Returns \<and> out (snd (run env ag p)) = out p @ [line @ [10]]) \<and>
   (\<forall>h kvs shown has_metadata line.
        on_message ag = Some h \<and> handler_call env ag h = Some (Inr (PDict kvs)) \<and>
        sdk_str env (PDict kvs) = Inr shown \<and>
        obj_truthy env (pydict_get kvs (ascii ''metadata'') PNone) = Inr has_metadata \<and>
        sdk_dumps env (response_dict (pydict_get kvs (ascii ''text'') (PStr shown))
           (if has_metadata then Some (pydict_get kvs (ascii ''metadata'') PNone) else None)) = Inr line \<and>
        quiet_teardown ag \<longrightarrow>
      fst (run env ag p) = Returns \<and> out (snd (run env ag p)) = out p @ [line @ [10]]) \<and>
   (\<forall>h result shown line.
        on_message ag = Some h \<and> handler_call env ag h = Some (Inr result) \<and>
        (\<forall>s. result \<noteq> PStr s) \<and> (\<forall>kvs. result \<noteq> PDict kvs) \<and>
        sdk_str env result = Inr shown \<and>
        sdk_dumps env (response_dict (PStr shown) None) = Inr line \<and> quiet_teardown ag \<longrightarrow>
      fst (run env ag p) = Returns \<and> out (snd (run env ag p)) = out p @ [line @ [10]]) \<and>
   (\<forall>h r. on_message ag = Some h \<and> handler_call env ag h = Some (Inl r) \<and>
        (\<forall>ex. r \<noteq> Ordinary ex) \<and> quiet_teardown ag \<longrightarrow>
      fst (run env ag p) = Raised r \<and> out (snd (run env ag p)) = out p) \<and>
   (\<forall>h ex line. on_message ag = Some h \<and> fst (run_try env ag h p) = Inl (Ordinary ex) \<and>
        sdk_dumps env (response_dict (PStr (ascii ''Error: '' @ message ex)) None) = Inr line \<and>
        quiet_teardown ag \<longrightarrow>
      fst (run env ag p) = Raised (Exit 1) \<and> out (snd (run env ag p)) = out p @ [line @ [10]]) \<and>
   (\<forall>h r. on_message ag = Some h \<and> fst (run_try env ag h p) = Inl r \<and>
        (\<forall>ex. r \<noteq> Ordinary ex) \<and> quiet_teardown ag \<longrightarrow>
      fst (run env ag p) = Raised r \<and> out (snd (run env ag p)) = out p) \<and>
   (\<forall>h. on_message ag = Some h \<and>
        (\<forall>s. \<exists>line. sdk_dumps env (response_dict (PStr s) None) = Inr line) \<and>
        (\<forall>r. fst (run_try env ag h p) = Inl r \<longrightarrow> (\<exists>ex. r = Ordinary ex)) \<longrightarrow>
      (\<exists>line. out (snd (run env ag p)) = out p @ [line @ [10]]))"
proof (intro conjI allI impI; (elim conjE)?)
  assume none: "on_message ag = None"
  then show "run env ag p = (Raised (Exit 1), log (ascii ''No message handler registered'') (ascii ''error'') p)"
    by (simp add: run_def)
  from none show "exits_nonzero (fst (run env ag p))" by (simp add: run_def)
  from none show "out (snd (run env ag p)) = out p" by (simp add: run_def)
next
  fix h ex
  assume reg: "on_message ag = Some h" and call: "handler_call env ag h = Some (Inl (Ordinary ex))"
    and quiet: "quiet_teardown ag"
  have failed: "run_try env ag h p = (Inl (Ordinary ex), p)"
    using run_try_of_call [OF call, of p] by simp
  show "exits_nonzero (fst (run env ag p))"
    using run_registered [OF reg quiet, of env p] run_guarded_caught_nonzero [OF failed] by simp
next
  fix h ex line
  assume reg: "on_message ag = Some h" and call: "handler_call env ag h = Some (Inl (Ordinary ex))"
    and quiet: "quiet_teardown ag"
    and dumped: "sdk_dumps env (response_dict (PStr (ascii ''Error: '' @ message ex)) None) = Inr line"
  have failed: "run_try env ag h p = (Inl (Ordinary ex), p)"
    using run_try_of_call [OF call, of p] by simp
  from run_registered [OF reg quiet, of env p] run_guarded_caught [OF failed dumped]
  show "fst (run env ag p) = Raised (Exit 1)" and "out (snd (run env ag p)) = out p @ [line @ [10]]"
    by simp_all
next
  fix h s line
  assume reg: "on_message ag = Some h" and call: "handler_call env ag h = Some (Inr (PStr s))"
    and dumped: "sdk_dumps env (response_dict (PStr s) None) = Inr line" and quiet: "quiet_teardown ag"
  have "run_try env ag h p = (Inr (), p\<lparr>out := out p @ [line @ [10]]\<rparr>)"
    using run_try_of_call [OF call, of p] dumped by (simp add: write_result_def sdk_respond_plain)
  from run_registered [OF reg quiet, of env p] run_guarded_returns [OF this]
  show "fst (run env ag p) = Returns" and "out (snd (run env ag p)) = out p @ [line @ [10]]"
    by simp_all
next
  fix h kvs shown has_metadata line
  assume reg: "on_message ag = Some h" and call: "handler_call env ag h = Some (Inr (PDict kvs))"
    and shown: "sdk_str env (PDict kvs) = Inr shown"
    and truth: "obj_truthy env (pydict_get kvs (ascii ''metadata'') PNone) = Inr has_metadata"
    and dumped: "sdk_dumps env (response_dict (pydict_get kvs (ascii ''text'') (PStr shown))
           (if has_metadata then Some (pydict_get kvs (ascii ''metadata'') PNone) else None)) = Inr line"
    and quiet: "quiet_teardown ag"
  have "run_try env ag h p = (Inr (), p\<lparr>out := out p @ [line @ [10]]\<rparr>)"
    using run_try_of_call [OF call, of p] shown truth dumped
    by (simp add: write_result_def sdk_respond_def)
  from run_registered [OF reg quiet, of env p] run_guarded_returns [OF this]
  show "fst (run env ag p) = Returns" and "out (snd (run env ag p)) = out p @ [line @ [10]]"
    by simp_all
next
  fix h result shown line
  assume reg: "on_message ag = Some h" and call: "handler_call env ag h = Some (Inr result)"
    and no_str: "\<forall>s. result \<noteq> PStr s" and no_dict: "\<forall>kvs. result \<noteq> PDict kvs"
    and shown: "sdk_str env result = Inr shown"
    and dumped: "sdk_dumps env (response_dict (PStr shown) None) = Inr line" and quiet: "quiet_teardown ag"
  have "write_result env result p = (Inr (), p\<lparr>out := out p @ [line @ [10]]\<rparr>)"
    using no_str no_dict shown dumped
    by (cases result) (simp_all add: write_result_def sdk_respond_plain)
  then have "run_try env ag h p = (Inr (), p\<lparr>out := out p @ [line @ [10]]\<rparr>)"
    using run_try_of_call [OF call, of p] by simp
  from run_registered [OF reg quiet, of env p] run_guarded_returns [OF this]
  show "fst (run env ag p) = Returns" and "out (snd (run env ag p)) = out p @ [line @ [10]]"
    by simp_all
next
  fix h r
  assume reg: "on_message ag = Some h" and call: "handler_call env ag h = Some (Inl r)"
    and base: "\<forall>ex. r \<noteq> Ordinary ex" and quiet: "quiet_teardown ag"
  have "run_try env ag h p = (Inl r, p)"
    using run_try_of_call [OF call, of p] by simp
  from run_registered [OF reg quiet, of env p] run_guarded_escapes [OF this base]
  show "fst (run env ag p) = Raised r" and "out (snd (run env ag p)) = out p"
    by simp_all
next
  fix h ex line
  assume reg: "on_message ag = Some h" and raised: "fst (run_try env ag h p) = Inl (Ordinary ex)"
    and dumped: "sdk_dumps env (response_dict (PStr (ascii ''Error: '' @ message ex)) None) = Inr line"
    and quiet: "quiet_teardown ag"
  have failed: "run_try env ag h p = (Inl (Ordinary ex), p)"
    using run_try_cases [of env ag h p] raised by auto
  from run_registered [OF reg quiet, of env p] run_guarded_caught [OF failed dumped]
  show "fst (run env ag p) = Raised (Exit 1)" and "out (snd (run env ag p)) = out p @ [line @ [10]]"
    by simp_all
next
  fix h r
  assume reg: "on_message ag = Some h" and raised: "fst (run_try env ag h p) = Inl r"
    and base: "\<forall>ex. r \<noteq> Ordinary ex" and quiet: "quiet_teardown ag"
  have "run_try env ag h p = (Inl r, p)"
    using run_try_cases [of env ag h p] raised by auto
  from run_registered [OF reg quiet, of env p] run_guarded_escapes [OF this base]
  show "fst (run env ag p) = Raised r" and "out (snd (run env ag p)) = out p"
    by simp_all
next
  fix h
  assume reg: "on_message ag = Some h"
    and dumps_ok: "\<forall>s. \<exists>line. sdk_dumps env (response_dict (PStr s) None) = Inr line"
    and caught: "\<forall>r. fst (run_try env ag h p) = Inl r \<longrightarrow> (\<exists>ex. r = Ordinary ex)"
  from run_try_cases [of env ag h p]
  show "\<exists>line. out (snd (run env ag p)) = out p @ [line @ [10]]"
  proof (elim disjE exE)
    fix r
    assume failed: "run_try env ag h p = (Inl r, p)"
    with caught obtain ex where r: "r = Ordinary ex" by auto
    from dumps_ok obtain line
      where "sdk_dumps env (response_dict (PStr (ascii ''Error: '' @ message ex)) None) = Inr line"
      by blast
    with run_guarded_caught [of env ag h p ex line] failed r run_out [OF reg, of env p]
    show ?thesis by simp
  next
    fix line
    assume "run_try env ag h p = (Inr (), p\<lparr>out := out p @ [line @ [10]]\<rparr>)"
    with run_guarded_returns [OF this] run_out [OF reg, of env p]
    show ?thesis by simp
  qed
qed

theorem agent_run_outcomes_witness:
  "on_message no_handler_agent = None \<and>
   run demo_sdk_env no_handler_agent demo_proc =
     (Raised (Exit 1), log (ascii ''No message handler registered'') (ascii ''error'') demo_proc) \<and>
   handler_call demo_sdk_env failing_agent failing_handler =
     Some (Inl (Ordinary (Exn (ascii ''ValueError'') (ascii ''boom'')))) \<and>
   quiet_teardown failing_agent \<and>
   fst (run demo_sdk_env failing_agent demo_proc) = Raised (Exit 1) \<and>
   out (snd (run demo_sdk_env failing_agent demo_proc)) = [ascii ''response: Error: boom'' @ [10]] \<and>
   handler_call demo_sdk_env echo_agent echo_handler = Some (Inr (PStr (ascii ''You said: ''))) \<and>
   fst (run demo_sdk_env echo_agent demo_proc) = Returns \<and>
   out (snd (run demo_sdk_env echo_agent demo_proc)) = [ascii ''response: You said: '' @ [10]] \<and>
   obj_truthy demo_sdk_env (PTuple []) = Inr False \<and>
   fst (run demo_sdk_env dict_agent demo_proc) = Returns \<and>
   out (snd (run demo_sdk_env dict_agent demo_proc)) = [ascii ''response: done'' @ [10]] \<and>
   fst (run demo_sdk_env number_agent demo_proc) = Returns \<and>
   out (snd (run demo_sdk_env number_agent demo_proc)) = [ascii ''response: <object>'' @ [10]] \<and>
   handler_call demo_sdk_env exiting_agent exiting_handler = Some (Inl (Exit 0)) \<and>
   fst (run demo_sdk_env exiting_agent demo_proc) = Raised (Exit 0) \<and>
   out (snd (run demo_sdk_env exiting_agent demo_proc)) = [] \<and>
   fst (run_try demo_sdk_env failing_agent failing_handler demo_proc) =
     Inl (Ordinary (Exn (ascii ''ValueError'') (ascii ''boom''))) \<and>
   fst (run_try demo_sdk_env exiting_agent exiting_handler demo_proc) = Inl (Exit 0) \<and>
   (\<forall>s. \<exists>line. sdk_dumps demo_sdk_env (response_dict (PStr s) None) = Inr line) \<and>
   (\<forall>r. fst (run_try demo_sdk_env echo_agent echo_handler demo_proc) \<noteq> Inl r) \<and>
   (\<exists>line. out (snd (run demo_sdk_env echo_agent demo_proc)) = out demo_proc @ [line @ [10]])"
proof -
  have input: "read_input demo_sdk_env =
      Inr (JObj [(ascii ''type'', JStr (ascii ''message'')), (ascii ''agent_id'', JStr []),
                 (ascii ''message'', JStr []), (ascii ''context'', JObj [])])"
    by (simp add: read_input_def demo_sdk_env_def strip_def environ_get_def)
  have call: "handler_call demo_sdk_env ag h = Some (h (JStr []) (JObj []))" if "on_setup ag = None" for ag h
    using that by (simp add: handler_call_def input dict_get_def)
  have dumps_plain: "sdk_dumps demo_sdk_env (response_dict (PStr s) None) = Inr (ascii ''response: '' @ s)" for s
    by (simp add: demo_sdk_env_def response_dict_def)
  have shown: "sdk_str demo_sdk_env v = Inr (ascii ''<object>'')" for v
    by (simp add: demo_sdk_env_def)
  have n0: "on_message no_handler_agent = None" by (simp add: no_handler_agent_def)
  have f0: "on_message failing_agent = Some failing_handler" "quiet_teardown failing_agent"
      "handler_call demo_sdk_env failing_agent failing_handler =
         Some (Inl (Ordinary (Exn (ascii ''ValueError'') (ascii ''boom''))))"
    by (simp_all add: failing_agent_def quiet_teardown_def call failing_handler_def)
  have e0: "on_message echo_agent = Some echo_handler" "quiet_teardown echo_agent"
      "handler_call demo_sdk_env echo_agent echo_handler = Some (Inr (PStr (ascii ''You said: '')))"
    by (simp_all add: echo_agent_def quiet_teardown_def call echo_handler_def)
  have d0: "on_message dict_agent = Some dict_handler" "quiet_teardown dict_agent"
      "handler_call demo_sdk_env dict_agent dict_handler =
         Some (Inr (PDict [(PStr (ascii ''text''), PStr (ascii ''done'')),
                           (PStr (ascii ''metadata''), PTuple [])]))"
      "pydict_get [(PStr (ascii ''text''), PStr (ascii ''done'')), (PStr (ascii ''metadata''), PTuple [])]
         (ascii ''metadata'') PNone = PTuple []"
      "pydict_get [(PStr (ascii ''text''), PStr (ascii ''done'')), (PStr (ascii ''metadata''), PTuple [])]
         (ascii ''text'') (PStr (ascii ''<object>'')) = PStr (ascii ''done'')"
      "obj_truthy demo_sdk_env (PTuple []) = Inr False"
    by (simp_all add: dict_agent_def quiet_teardown_def call dict_handler_def pydict_get_def)
  have m0: "on_message number_agent = Some number_handler" "quiet_teardown number_agent"
      "handler_call demo_sdk_env number_agent number_handler = Some (Inr (PInt 42))"
    by (simp_all add: number_agent_def quiet_teardown_def call number_handler_def)
  have x0: "on_message exiting_agent = Some exiting_handler" "quiet_teardown exiting_agent"
      "handler_call demo_sdk_env exiting_agent exiting_handler = Some (Inl (Exit 0))"
    by (simp_all add: exiting_agent_def quiet_teardown_def call exiting_handler_def)
  note w = agent_run_outcomes [of _ demo_sdk_env demo_proc]
  have r1: "run demo_sdk_env no_handler_agent demo_proc =
     (Raised (Exit 1), log (ascii ''No message handler registered'') (ascii ''error'') demo_proc)"
    using w [of no_handler_agent, THEN conjunct1] n0 by simp
  have r2: "fst (run demo_sdk_env failing_agent demo_proc) = Raised (Exit 1) \<and>
      out (snd (run demo_sdk_env failing_agent demo_proc)) = out demo_proc @ [(ascii ''response: '' @ ascii ''Error: boom'') @ [10]]"
    using w [of failing_agent, THEN conjunct2, THEN conjunct1, rule_format,
        of failing_handler "Exn (ascii ''ValueError'') (ascii ''boom'')"]
      f0 dumps_plain [of "ascii ''Error: '' @ message (Exn (ascii ''ValueError'') (ascii ''boom''))"]
    by (simp add: ascii_def)
  have r3: "fst (run demo_sdk_env echo_agent demo_proc) = Returns \<and>
      out (snd (run demo_sdk_env echo_agent demo_proc)) = out demo_proc @ [(ascii ''response: '' @ ascii ''You said: '') @ [10]]"
    using w [of echo_agent, THEN conjunct2, THEN conjunct2, THEN conjunct1, rule_format,
        of echo_handler "ascii ''You said: ''" "ascii ''response: '' @ ascii ''You said: ''"]
      e0 dumps_plain [of "ascii ''You said: ''"]
    by simp
  have r4: "fst (run demo_sdk_env dict_agent demo_proc) = Returns \<and>
      out (snd (run demo_sdk_env dict_agent demo_proc)) = out demo_proc @ [(ascii ''response: '' @ ascii ''done'') @ [10]]"
    using w [of dict_agent, THEN conjunct2, THEN conjunct2, THEN conjunct2, THEN conjunct1, rule_format,
        of dict_handler "[(PStr (ascii ''text''), PStr (ascii ''done'')), (PStr (ascii ''metadata''), PTuple [])]"
        "ascii ''<object>''" False "ascii ''response: '' @ ascii ''done''"]
      d0 shown dumps_plain [of "ascii ''done''"]
    by simp
  have r5: "fst (run demo_sdk_env number_agent demo_proc) = Returns \<and>
      out (snd (run demo_sdk_env number_agent demo_proc)) = out demo_proc @ [(ascii ''response: '' @ ascii ''<object>'') @ [10]]"
    using w [of number_agent, THEN conjunct2, THEN conjunct2, THEN conjunct2, THEN conjunct2, THEN conjunct1, rule_format,
        of number_handler "PInt 42" "ascii ''<object>''" "ascii ''response: '' @ ascii ''<object>''"]
      m0 shown dumps_plain [of "ascii ''<object>''"]
    by simp
  have r6: "fst (run demo_sdk_env exiting_agent demo_proc) = Raised (Exit 0) \<and>
      out (snd (run demo_sdk_env exiting_agent demo_proc)) = out demo_proc"
    using w [of exiting_agent, THEN conjunct2, THEN conjunct2, THEN conjunct2, THEN conjunct2, THEN conjunct2, THEN conjunct1, rule_format, of exiting_handler "Exit 0"] x0
    by simp
  have t1: "fst (run_try demo_sdk_env failing_agent failing_handler demo_proc) =
      Inl (Ordinary (Exn (ascii ''ValueError'') (ascii ''boom'')))"
    using run_try_of_call [OF f0(3), of demo_proc] by simp
  have t2: "fst (run_try demo_sdk_env exiting_agent exiting_handler demo_proc) = Inl (Exit 0)"
    using run_try_of_call [OF x0(3), of demo_proc] by simp
  have t3: "fst (run_try demo_sdk_env echo_agent echo_handler demo_proc) \<noteq> Inl r" for r
    using run_try_of_call [OF e0(3), of demo_proc] dumps_plain [of "ascii ''You said: ''"]
    by (simp add: write_result_def sdk_respond_plain)
  have all_dumps: "\<forall>s. \<exists>line. sdk_dumps demo_sdk_env (response_dict (PStr s) None) = Inr line"
    using dumps_plain by blast
  have r7: "fst (run demo_sdk_env failing_agent demo_proc) = Raised (Exit 1) \<and>
      out (snd (run demo_sdk_env failing_agent demo_proc)) = out demo_proc @ [(ascii ''response: '' @ ascii ''Error: boom'') @ [10]]"
    using w [of failing_agent, THEN conjunct2, THEN conjunct2, THEN conjunct2, THEN conjunct2, THEN conjunct2, THEN conjunct2, THEN conjunct1, rule_format,
        of failing_handler "Exn (ascii ''ValueError'') (ascii ''boom'')" "ascii ''response: '' @ ascii ''Error: boom''"]
      f0 t1 dumps_plain [of "ascii ''Error: '' @ message (Exn (ascii ''ValueError'') (ascii ''boom''))"]
    by (simp add: ascii_def)
  have r8: "fst (run demo_sdk_env exiting_agent demo_proc) = Raised (Exit 0) \<and>
      out (snd (run demo_sdk_env exiting_agent demo_proc)) = out demo_proc"
    using w [of exiting_agent, THEN conjunct2, THEN conjunct2, THEN conjunct2, THEN conjunct2, THEN conjunct2, THEN conjunct2, THEN conjunct2, THEN conjunct1, rule_format, of exiting_handler "Exit 0"] x0 t2
    by simp
  have r9: "\<exists>line. out (snd (run demo_sdk_env echo_agent demo_proc)) = out demo_proc @ [line @ [10]]"
    using w [of echo_agent, THEN conjunct2, THEN conjunct2, THEN conjunct2, THEN conjunct2, THEN conjunct2, THEN conjunct2, THEN conjunct2, THEN conjunct2, rule_format, of echo_handler] e0 all_dumps t3
    by simp
  from n0 r1 f0 r2 e0 r3 d0 r4 r5 x0 r6 r7 r8 t1 t2 t3 all_dumps r9 show ?thesis
    by (simp add: demo_proc_def ascii_append [symmetric])
qed

text \<open>
  C8, as the claim states it, fails: a handler that raises \<open>SystemExit\<close> with status 0
  (\<open>sys.exit(0)\<close>) is not caught by \<open>except Exception\<close>; the process ends with status 0
  and no response is written.
\<close>

theorem handler_exit_zero_not_caught:
  "on_message exiting_agent = Some exiting_handler \<and>
   handler_call demo_sdk_env exiting_agent exiting_handler = Some (Inl (Exit 0)) \<and>
   fst (run demo_sdk_env exiting_agent demo_proc) = Raised (Exit 0) \<and>
   \<not> exits_nonzero (fst (run demo_sdk_env exiting_agent demo_proc)) \<and>
   out (snd (run demo_sdk_env exiting_agent demo_proc)) = []"
  by (simp add: exiting_agent_def exiting_handler_def handler_call_def run_def run_guarded_def run_try_def
        run_finally_def read_input_def demo_sdk_env_def strip_def environ_get_def dict_get_def demo_proc_def)

end
